theory Spec2Isabelle
  imports Complex_Main
begin

section \<open>Values of the host language\<close>

text \<open>
  A thrown value, as the \<open>catch\<close> clauses of the blog actions tell them apart:
  an \<open>Error\<close> with its message, a \<open>ZodError\<close> (a subclass of \<open>Error\<close>) with the
  messages of its issues and its own message, or a value that is no \<open>Error\<close> at all.
\<close>

datatype thrown = ErrorObj string | ZodError "string list" string | NonError

text \<open>
  A JavaScript \<open>number\<close> where the code can meet a non-finite one
  (\<open>parseFloat\<close>, a division by zero): the finite values are those of \<open>'a\<close>.
\<close>

datatype 'a jsnum = NaN | PosInf | NegInf | Fin 'a

text \<open>\<open>isNaN(a)\<close> and the comparison \<open>a < b\<close> of two numbers (\<open>a > b\<close> is \<open>b < a\<close>).\<close>

fun isNaN :: "real jsnum \<Rightarrow> bool" where
  "isNaN NaN = True"
| "isNaN _ = False"

fun js_less :: "real jsnum \<Rightarrow> real jsnum \<Rightarrow> bool" where
  "js_less NaN _ = False"
| "js_less _ NaN = False"
| "js_less (Fin a) (Fin b) = (a < b)"
| "js_less NegInf b = (b \<noteq> NegInf)"
| "js_less a PosInf = (a \<noteq> PosInf)"
| "js_less _ _ = False"

text \<open>\<open>s.startsWith(t)\<close> and \<open>s.includes(t)\<close>.\<close>

fun startsWith :: "string \<Rightarrow> string \<Rightarrow> bool" where
  "startsWith s [] = True"
| "startsWith [] (c # t) = False"
| "startsWith (d # s) (c # t) = (d = c \<and> startsWith s t)"

fun includes_str :: "string \<Rightarrow> string \<Rightarrow> bool" where
  "includes_str [] t = (t = [])"
| "includes_str (c # s) t = (startsWith (c # s) t \<or> includes_str s t)"

text \<open>\<open>x || d\<close> on an optional string: \<open>undefined\<close> and the empty string are falsy.\<close>

fun or_else :: "string option \<Rightarrow> string \<Rightarrow> string" where
  "or_else None d = d"
| "or_else (Some s) d = (if s = [] then d else s)"

text \<open>The result envelope \<open>ActionResult<T>\<close>.\<close>

record 'd action_result =
  success :: bool
  data :: "'d option"
  error :: "string option"
  message :: "string option"

definition failure :: "string \<Rightarrow> 'd action_result" where
  "failure msg = \<lparr>success = False, data = None, error = Some msg, message = None\<rparr>"

section \<open>The blog actions\<close>

subsection \<open>Data\<close>

text \<open>
  The fields shared by the form values (\<open>BlogFormValues\<close>: the publish date a string,
  the featured flag optional) and by the values handed to the store
  (\<open>BlogInsertData\<close>: the publish date a time, the flag a boolean).
\<close>

record ('d, 'b) blog_fields =
  title :: string
  slug :: string
  author :: string
  content :: string
  status :: string
  featuredImage :: "string option"
  publishedAt :: "'d option"
  isFeatured :: 'b

type_synonym blog_form = "(string, bool option) blog_fields"
type_synonym blog_values = "(int, bool) blog_fields"

record blog_post = "(int, bool) blog_fields" +
  post_id :: int
  createdAt :: int
  updatedAt :: int

datatype path = AdminBlogs | AdminBlogEdit int | PublicBlogs

datatype effect =
    EvHasPermission string
  | EvSelect
  | EvCount
  | EvInsert
  | EvUpdate int
  | EvDelete int
  | EvRevalidate path
  | EvUuid
  | EvSign string string "real jsnum" int

text \<open>
  What one call of an action finds around it: the answer of \<open>hasPermission\<close>, the
  schema's \<open>parse\<close>, \<open>new Date(s)\<close>, the store's failures (\<open>db_fault n\<close> is what
  the \<open>n\<close>-th statement of the action raises, if anything), the clock, the next
  \<open>uuid()\<close>, the signer and the two environment variables.
\<close>

record env =
  hasPermission :: "string \<Rightarrow> thrown + bool"
  parse :: "blog_form \<Rightarrow> thrown + blog_form"
  toDate :: "string \<Rightarrow> int"
  db_fault :: "nat \<Rightarrow> thrown option"
  clock :: int
  uuid :: "thrown + string"
  getSignedUrl ::
    "string option \<Rightarrow> string \<Rightarrow> string \<Rightarrow> real jsnum \<Rightarrow> int \<Rightarrow> thrown + string"
  S3_BUCKET_NAME :: "string option"
  NEXT_PUBLIC_S3_DOMAIN :: "string option"

text \<open>The store and the trace of what an action did to the world.\<close>

record world =
  rows :: "blog_post list"
  serial :: int
  trace :: "effect list"

datatype blog_data =
    Written blog_values int
  | Row blog_post
  | Page "blog_post list" int "int jsnum" int int
  | Urls string string

type_synonym 'a io = "(thrown + 'a) \<times> world"

definition emit :: "effect \<Rightarrow> world \<Rightarrow> world" where
  "emit e w = w\<lparr>trace := trace w @ [e]\<rparr>"

text \<open>\<open>await m\<close> followed by the rest of the \<open>try\<close> block; a rejection skips the rest.\<close>

definition await :: "'a io \<Rightarrow> ('a \<Rightarrow> world \<Rightarrow> 'b io) \<Rightarrow> 'b io" where
  "await m k = (case m of (Inl e, w) \<Rightarrow> (Inl e, w) | (Inr x, w) \<Rightarrow> k x w)"

subsection \<open>The store's statements\<close>

definition db_select :: "env \<Rightarrow> nat \<Rightarrow> (blog_post \<Rightarrow> bool) \<Rightarrow> world \<Rightarrow> blog_post list io" where
  "db_select env n cond w =
     (case db_fault env n of
        Some e \<Rightarrow> (Inl e, emit EvSelect w)
      | None \<Rightarrow> (Inr (take 1 (filter cond (rows w))), emit EvSelect w))"

text \<open>
  Modelled from the spec: the declaration of the table \<open>blogPosts\<close> (the schema
  module) is missing; a new row gets the next serial identity and its created and
  updated timestamps from the clock.
\<close>

definition db_insert :: "env \<Rightarrow> nat \<Rightarrow> blog_values \<Rightarrow> world \<Rightarrow> int io" where
  "db_insert env n v w =
     (case db_fault env n of
        Some e \<Rightarrow> (Inl e, emit EvInsert w)
      | None \<Rightarrow>
          (Inr (serial w),
           emit EvInsert
             (w\<lparr>rows := rows w @
                   [blog_fields.extend v
                      (blog_post.fields (serial w) (clock env) (clock env))],
                 serial := serial w + 1\<rparr>)))"

text \<open>
  The update statement writes the columns of its \<open>SET\<close> list and no other. The list
  that \<open>updateBlog\<close> hands over has the eight form fields; \<open>updatedAt\<close> is not among
  them.
\<close>

definition set_values :: "blog_values \<Rightarrow> blog_post \<Rightarrow> blog_post" where
  "set_values v b =
     b\<lparr>title := title v, slug := slug v, author := author v, content := content v,
       status := status v, featuredImage := featuredImage v,
       publishedAt := publishedAt v, isFeatured := isFeatured v\<rparr>"

definition db_update :: "env \<Rightarrow> nat \<Rightarrow> blog_values \<Rightarrow> int \<Rightarrow> world \<Rightarrow> unit io" where
  "db_update env n v i w =
     (case db_fault env n of
        Some e \<Rightarrow> (Inl e, emit (EvUpdate i) w)
      | None \<Rightarrow>
          (Inr (),
           emit (EvUpdate i)
             (w\<lparr>rows := map (\<lambda>b. if post_id b = i then set_values v b else b) (rows w)\<rparr>)))"

definition db_delete :: "env \<Rightarrow> nat \<Rightarrow> int \<Rightarrow> world \<Rightarrow> unit io" where
  "db_delete env n i w =
     (case db_fault env n of
        Some e \<Rightarrow> (Inl e, emit (EvDelete i) w)
      | None \<Rightarrow> (Inr (), emit (EvDelete i) (w\<lparr>rows := filter (\<lambda>b. post_id b \<noteq> i) (rows w)\<rparr>)))"

subsection \<open>Shared helpers\<close>

definition duplicate_message :: string where
  "duplicate_message = ''A blog with this title or slug already exists''"

definition generic_message :: string where
  "generic_message = ''Something went wrong. Please try again.''"

definition permission_message :: string where
  "permission_message = ''You don't have permission to manage blog posts''"

definition not_found_message :: string where
  "not_found_message = ''Blog post not found''"

fun handleDbError :: "thrown \<Rightarrow> blog_data action_result" where
  "handleDbError (ErrorObj m) =
     (if includes_str m ''Duplicate entry'' then failure duplicate_message
      else failure generic_message)"
| "handleDbError (ZodError issues m) =
     (if includes_str m ''Duplicate entry'' then failure duplicate_message
      else failure generic_message)"
| "handleDbError NonError = failure generic_message"

definition validatePermission :: "env \<Rightarrow> world \<Rightarrow> blog_data action_result option io" where
  "validatePermission env w =
     (case hasPermission env ''manage_blog_posts'' of
        Inl e \<Rightarrow> (Inl e, emit (EvHasPermission ''manage_blog_posts'') w)
      | Inr ok \<Rightarrow>
          (Inr (if \<not> ok then Some (failure permission_message) else None),
           emit (EvHasPermission ''manage_blog_posts'') w))"

text \<open>The conversion of the validated form to the store's types.\<close>

definition dbValues :: "env \<Rightarrow> blog_form \<Rightarrow> blog_values" where
  "dbValues env v =
     \<lparr>title = title v, slug = slug v, author = author v, content = content v,
      status = status v,
      featuredImage = (case featuredImage v of None \<Rightarrow> None
                       | Some s \<Rightarrow> if s = [] then None else Some s),
      publishedAt = (case publishedAt v of None \<Rightarrow> None
                     | Some s \<Rightarrow> if s = [] then None else Some (toDate env s)),
      isFeatured = (case isFeatured v of None \<Rightarrow> False | Some b \<Rightarrow> b)\<rparr>"

text \<open>The \<open>catch\<close> clause of \<open>createBlog\<close> and \<open>updateBlog\<close>.\<close>

fun catch_form :: "thrown \<Rightarrow> blog_data action_result" where
  "catch_form (ZodError issues m) =
     failure (or_else (case issues of [] \<Rightarrow> None | i # _ \<Rightarrow> Some i)
                ''Please check the form for errors.'')"
| "catch_form e = handleDbError e"

definition settle :: "(thrown \<Rightarrow> 'r) \<Rightarrow> 'r io \<Rightarrow> 'r \<times> world" where
  "settle handler m = (case m of (Inl e, w) \<Rightarrow> (handler e, w) | (Inr r, w) \<Rightarrow> (r, w))"

subsection \<open>createBlog\<close>

definition createBlog_try :: "env \<Rightarrow> blog_form \<Rightarrow> world \<Rightarrow> blog_data action_result io" where
  "createBlog_try env values w =
     await (validatePermission env w) (\<lambda>permissionError w.
       case permissionError of
         Some r \<Rightarrow> (Inr r, w)
       | None \<Rightarrow>
           await (parse env values, w) (\<lambda>validatedFields w.
             await (db_select env 0
                      (\<lambda>b. title b = title validatedFields \<or> slug b = slug validatedFields) w)
               (\<lambda>existingBlog w.
                  if length existingBlog > 0 then (Inr (failure duplicate_message), w)
                  else
                    await (db_insert env 1 (dbValues env validatedFields) w) (\<lambda>new_id w.
                      (Inr \<lparr>success = True,
                            data = Some (Written (dbValues env validatedFields) new_id),
                            error = None,
                            message = Some ''Blog post created successfully''\<rparr>,
                       emit (EvRevalidate PublicBlogs) (emit (EvRevalidate AdminBlogs) w))))))"

definition createBlog :: "env \<Rightarrow> blog_form \<Rightarrow> world \<Rightarrow> blog_data action_result \<times> world" where
  "createBlog env values w = settle catch_form (createBlog_try env values w)"

subsection \<open>updateBlog\<close>

definition updateBlog_try ::
  "env \<Rightarrow> int \<Rightarrow> blog_form \<Rightarrow> world \<Rightarrow> blog_data action_result io" where
  "updateBlog_try env i values w =
     await (validatePermission env w) (\<lambda>permissionError w.
       case permissionError of
         Some r \<Rightarrow> (Inr r, w)
       | None \<Rightarrow>
           await (parse env values, w) (\<lambda>validatedFields w.
             await (db_select env 0 (\<lambda>b. post_id b = i) w) (\<lambda>existingBlog w.
               if length existingBlog = 0 then (Inr (failure not_found_message), w)
               else
                 await (db_select env 1
                          (\<lambda>b. (title b = title validatedFields \<or> slug b = slug validatedFields)
                                \<and> post_id b \<noteq> i) w)
                   (\<lambda>duplicateBlog w.
                      if length duplicateBlog > 0 then (Inr (failure duplicate_message), w)
                      else
                        await (db_update env 2 (dbValues env validatedFields) i w) (\<lambda>_ w.
                          (Inr \<lparr>success = True,
                                data = Some (Written (dbValues env validatedFields) i),
                                error = None,
                                message = Some ''Blog post updated successfully''\<rparr>,
                           emit (EvRevalidate PublicBlogs)
                             (emit (EvRevalidate (AdminBlogEdit i))
                                (emit (EvRevalidate AdminBlogs) w))))))))"

definition updateBlog ::
  "env \<Rightarrow> int \<Rightarrow> blog_form \<Rightarrow> world \<Rightarrow> blog_data action_result \<times> world" where
  "updateBlog env i values w = settle catch_form (updateBlog_try env i values w)"

subsection \<open>deleteBlog and getBlog\<close>

definition deleteBlog_try :: "env \<Rightarrow> int \<Rightarrow> world \<Rightarrow> blog_data action_result io" where
  "deleteBlog_try env i w =
     await (validatePermission env w) (\<lambda>permissionError w.
       case permissionError of
         Some r \<Rightarrow> (Inr r, w)
       | None \<Rightarrow>
           await (db_select env 0 (\<lambda>b. post_id b = i) w) (\<lambda>blogData w.
             case blogData of
               [] \<Rightarrow> (Inr (failure not_found_message), w)
             | blog # _ \<Rightarrow>
                 await (db_delete env 1 i w) (\<lambda>_ w.
                   (Inr \<lparr>success = True, data = None, error = None,
                         message = Some (''Blog post '' @ [CHR 0x22] @ title blog @ [CHR 0x22]
                                          @ '' deleted successfully'')\<rparr>,
                    emit (EvRevalidate PublicBlogs) (emit (EvRevalidate AdminBlogs) w)))))"

definition deleteBlog :: "env \<Rightarrow> int \<Rightarrow> world \<Rightarrow> blog_data action_result \<times> world" where
  "deleteBlog env i w = settle handleDbError (deleteBlog_try env i w)"

definition getBlog_try :: "env \<Rightarrow> int \<Rightarrow> world \<Rightarrow> blog_data action_result io" where
  "getBlog_try env i w =
     await (validatePermission env w) (\<lambda>permissionError w.
       case permissionError of
         Some r \<Rightarrow> (Inr r, w)
       | None \<Rightarrow>
           await (db_select env 0 (\<lambda>b. post_id b = i) w) (\<lambda>blog w.
             case blog of
               [] \<Rightarrow> (Inr (failure not_found_message), w)
             | b # _ \<Rightarrow>
                 (Inr \<lparr>success = True, data = Some (Row b), error = None, message = None\<rparr>, w)))"

definition getBlog :: "env \<Rightarrow> int \<Rightarrow> world \<Rightarrow> blog_data action_result \<times> world" where
  "getBlog env i w = settle handleDbError (getBlog_try env i w)"

subsection \<open>getPaginatedBlogs\<close>

text \<open>
  The store's \<open>ILIKE\<close>: in the pattern \<open>%\<close> stands for any run of characters, \<open>_\<close> for
  any one character, and a backslash takes the next character literally; letters are
  compared without regard to case.
\<close>

definition to_lower :: "char \<Rightarrow> char" where
  "to_lower c =
     (if (65::nat) \<le> of_char c \<and> of_char c \<le> (90::nat)
      then char_of (of_char c + (32::nat)) else c)"

definition toLowerCase :: "string \<Rightarrow> string" where
  "toLowerCase s = map to_lower s"

fun like_match :: "string \<Rightarrow> string \<Rightarrow> bool" where
  "like_match [] s = (s = [])"
| "like_match (p # ps) s =
     (if p = CHR ''%'' then
        (like_match ps s \<or> (case s of [] \<Rightarrow> False | _ # s' \<Rightarrow> like_match (p # ps) s'))
      else if p = CHR ''_'' then
        (case s of [] \<Rightarrow> False | _ # s' \<Rightarrow> like_match ps s')
      else if p = CHR 0x5C then
        (case ps of
           [] \<Rightarrow> False
         | q # qs \<Rightarrow> (case s of [] \<Rightarrow> False | c # s' \<Rightarrow> c = q \<and> like_match qs s'))
      else (case s of [] \<Rightarrow> False | c # s' \<Rightarrow> c = p \<and> like_match ps s'))"

definition ilike :: "string \<Rightarrow> string \<Rightarrow> bool" where
  "ilike column pattern = like_match (toLowerCase pattern) (toLowerCase column)"

definition searchCondition :: "string option \<Rightarrow> (blog_post \<Rightarrow> bool) option" where
  "searchCondition search =
     (case search of
        None \<Rightarrow> None
      | Some s \<Rightarrow>
          if s = [] then None
          else Some (\<lambda>b. ilike (title b) (''%'' @ s @ ''%'')
                        \<or> ilike (author b) (''%'' @ s @ ''%'')
                        \<or> ilike (content b) (''%'' @ s @ ''%'')))"

definition where_rows :: "(blog_post \<Rightarrow> bool) option \<Rightarrow> blog_post list \<Rightarrow> blog_post list" where
  "where_rows cond bs = (case cond of None \<Rightarrow> bs | Some c \<Rightarrow> filter c bs)"

text \<open>
  The listing statement: \<open>ORDER BY created_at DESC LIMIT l OFFSET o\<close>. The store
  refuses a negative limit or offset. Rows created at the same time are listed in the
  order in which they are stored; the store itself promises no order among them.
\<close>

definition db_select_page ::
  "env \<Rightarrow> nat \<Rightarrow> (blog_post \<Rightarrow> bool) option \<Rightarrow> int \<Rightarrow> int \<Rightarrow> world \<Rightarrow> blog_post list io" where
  "db_select_page env n cond l off w =
     (case db_fault env n of
        Some e \<Rightarrow> (Inl e, emit EvSelect w)
      | None \<Rightarrow>
          if l < 0 \<or> off < 0
          then (Inl (ErrorObj ''LIMIT and OFFSET must not be negative''), emit EvSelect w)
          else (Inr (take (nat l) (drop (nat off)
                      (sort_key (\<lambda>b. - createdAt b) (where_rows cond (rows w))))),
                emit EvSelect w))"

definition db_count :: "env \<Rightarrow> nat \<Rightarrow> (blog_post \<Rightarrow> bool) option \<Rightarrow> world \<Rightarrow> int io" where
  "db_count env n cond w =
     (case db_fault env n of
        Some e \<Rightarrow> (Inl e, emit EvCount w)
      | None \<Rightarrow> (Inr (int (length (where_rows cond (rows w)))), emit EvCount w))"

text \<open>\<open>Promise.all\<close> of two statements: both are issued, the first rejection wins.\<close>

definition promise_all :: "(world \<Rightarrow> 'a io) \<Rightarrow> (world \<Rightarrow> 'b io) \<Rightarrow> world \<Rightarrow> ('a \<times> 'b) io" where
  "promise_all f g w =
     (case f w of
        (r1, w1) \<Rightarrow>
          (case g w1 of
             (r2, w2) \<Rightarrow>
               (case r1 of
                  Inl e \<Rightarrow> (Inl e, w2)
                | Inr x \<Rightarrow> (case r2 of Inl e \<Rightarrow> (Inl e, w2) | Inr y \<Rightarrow> (Inr (x, y), w2)))))"

text \<open>\<open>Math.ceil(a / b)\<close> on integers \<open>a\<close> and \<open>b\<close>.\<close>

definition math_ceil_div :: "int \<Rightarrow> int \<Rightarrow> int jsnum" where
  "math_ceil_div a b =
     (if b = 0 then (if a = 0 then NaN else if 0 < a then PosInf else NegInf)
      else Fin (- ((- a) div b)))"

definition getPaginatedBlogs_try ::
  "env \<Rightarrow> int \<Rightarrow> int \<Rightarrow> string option \<Rightarrow> world \<Rightarrow> blog_data action_result io" where
  "getPaginatedBlogs_try env page pageSize search w =
     await (validatePermission env w) (\<lambda>permissionError w.
       case permissionError of
         Some r \<Rightarrow> (Inr r, w)
       | None \<Rightarrow>
           await (promise_all
                    (db_select_page env 0 (searchCondition search) pageSize
                       ((page - 1) * pageSize))
                    (db_count env 1 (searchCondition search)) w)
             (\<lambda>(blogsData, totalCountResult) w.
                (Inr \<lparr>success = True,
                      data = Some (Page blogsData page
                                     (math_ceil_div totalCountResult pageSize)
                                     totalCountResult pageSize),
                      error = None, message = None\<rparr>, w)))"

definition getPaginatedBlogs ::
  "env \<Rightarrow> int \<Rightarrow> int \<Rightarrow> string option \<Rightarrow> world \<Rightarrow> blog_data action_result \<times> world" where
  "getPaginatedBlogs env page pageSize search w =
     settle handleDbError (getPaginatedBlogs_try env page pageSize search w)"

subsection \<open>generatePresignedUrl\<close>

definition MAX_FILE_SIZE :: real where
  "MAX_FILE_SIZE = 5 * 1024 * 1024"

text \<open>\<open>s.split(sep)\<close> for a one-character separator.\<close>

fun split_on :: "char \<Rightarrow> string \<Rightarrow> string list" where
  "split_on sep [] = [[]]"
| "split_on sep (c # s) =
     (if c = sep then [] # split_on sep s
      else (case split_on sep s of [] \<Rightarrow> [[c]] | p # ps \<Rightarrow> (c # p) # ps))"

text \<open>A value that may be \<open>undefined\<close>, inside a template string.\<close>

fun template :: "string option \<Rightarrow> string" where
  "template None = ''undefined''"
| "template (Some s) = s"

definition fileExtension :: "string \<Rightarrow> string" where
  "fileExtension fileType =
     template (case split_on CHR ''/'' fileType of _ # e # _ \<Rightarrow> Some e | _ \<Rightarrow> None)"

definition storage_key :: "string \<Rightarrow> string \<Rightarrow> string" where
  "storage_key uniqueId fileType = ''blog-images/'' @ uniqueId @ ''.'' @ fileExtension fileType"

text \<open>
  The size is a JavaScript number: \<open>fileSize > MAX_FILE_SIZE\<close> is the comparison
  \<open>js_less (Fin MAX_FILE_SIZE) fileSize\<close>, which is false of \<open>NaN\<close>.
\<close>

definition generatePresignedUrl_try ::
  "env \<Rightarrow> string \<Rightarrow> real jsnum \<Rightarrow> world \<Rightarrow> blog_data action_result io" where
  "generatePresignedUrl_try env fileType fileSize w =
     await (hasPermission env ''manage_blog_posts'',
            emit (EvHasPermission ''manage_blog_posts'') w) (\<lambda>ok w.
       if \<not> ok then (Inr (failure ''Unauthorized''), w)
       else if \<not> startsWith fileType ''image/''
       then (Inr (failure ''Only image files are allowed''), w)
       else if js_less (Fin MAX_FILE_SIZE) fileSize
       then (Inr (failure ''File size exceeds the 5MB limit''), w)
       else
         await (uuid env, emit EvUuid w) (\<lambda>uniqueId w.
           await (getSignedUrl env (S3_BUCKET_NAME env) (storage_key uniqueId fileType)
                    fileType fileSize 300,
                  emit (EvSign (storage_key uniqueId fileType) fileType fileSize 300) w)
             (\<lambda>presignedUrl w.
                (Inr \<lparr>success = True,
                      data = Some (Urls presignedUrl
                                     (template (NEXT_PUBLIC_S3_DOMAIN env) @ ''/''
                                        @ storage_key uniqueId fileType)),
                      error = None, message = None\<rparr>, w))))"

definition generatePresignedUrl ::
  "env \<Rightarrow> string \<Rightarrow> real jsnum \<Rightarrow> world \<Rightarrow> blog_data action_result \<times> world" where
  "generatePresignedUrl env fileType fileSize w =
     settle handleDbError (generatePresignedUrl_try env fileType fileSize w)"

section \<open>The search dialogs\<close>

subsection \<open>Shared state\<close>

text \<open>The whitespace that \<open>trim\<close> removes from both ends of a string.\<close>

definition is_space :: "char \<Rightarrow> bool" where
  "is_space c = (c \<in> {CHR '' '', CHR 0x09, CHR 0x0A, CHR 0x0B, CHR 0x0C, CHR 0x0D})"

definition trim :: "string \<Rightarrow> string" where
  "trim s = rev (dropWhile is_space (rev (dropWhile is_space s)))"

text \<open>
  What a dialog does besides changing its own state, in the order it does it: the
  notifications, the calls of the server actions and the call of the parent's callback
  with its argument (\<open>None\<close> when it is called with none).
\<close>

datatype 'd notice =
    ToastError string
  | ToastSuccess string
  | ConsoleError thrown
  | CallGetAvailableEvents int
  | CallAttachEventToRanklist int int "real jsnum"
  | CallSearchUsers string
  | CallAddUser string
  | Callback "'d option"

record ('i, 'd) search_state =
  searchQuery :: string
  debouncedSearch :: string
  isSearching :: bool
  searchResults :: "'i list"
  notices :: "'d notice list"

definition notify ::
  "'d notice list \<Rightarrow> ('i, 'd, 'z) search_state_scheme \<Rightarrow> ('i, 'd, 'z) search_state_scheme" where
  "notify ns st = st\<lparr>notices := notices st @ ns\<rparr>"

text \<open>The \<open>onChange\<close> handler of the text input, the same in both dialogs.\<close>

definition onChange ::
  "string \<Rightarrow> ('i, 'd, 'z) search_state_scheme \<Rightarrow> ('i, 'd, 'z) search_state_scheme" where
  "onChange v st = (if v = [] then st\<lparr>searchQuery := v, searchResults := []\<rparr>
                    else st\<lparr>searchQuery := v\<rparr>)"

subsection \<open>The event-attach dialog\<close>

record event =
  ev_id :: int
  ev_title :: string
  ev_description :: "string option"
  ev_startingAt :: int
  ev_type :: string

record 'd attach_state = "(event, 'd) search_state" +
  isOpen :: bool
  isAttaching :: "int option"
  eventWeights :: "int \<rightharpoonup> string"

text \<open>
  The dialog's properties (\<open>onSuccess\<close> is optional: the flag says whether it is
  there), the two server actions it calls and \<open>parseFloat\<close>.
\<close>

record 'd attach_props =
  ranklistId :: int
  onSuccess :: bool
  getAvailableEvents :: "int \<Rightarrow> thrown + event list action_result"
  attachEventToRanklist :: "int \<Rightarrow> int \<Rightarrow> real jsnum \<Rightarrow> thrown + 'd action_result"
  parseFloat :: "string \<Rightarrow> real jsnum"

definition event_matches :: "string \<Rightarrow> event \<Rightarrow> bool" where
  "event_matches query e =
     (includes_str (toLowerCase (ev_title e)) (toLowerCase query)
      \<or> (case ev_description e of
            None \<Rightarrow> False
          | Some d \<Rightarrow> includes_str (toLowerCase d) (toLowerCase query))
      \<or> includes_str (toLowerCase (ev_type e)) (toLowerCase query))"

definition attach_handleSearch ::
  "'d attach_props \<Rightarrow> string \<Rightarrow> 'd attach_state \<Rightarrow> 'd attach_state" where
  "attach_handleSearch props query st =
     (if trim query = [] \<or> length query < 2 then st\<lparr>searchResults := []\<rparr>
      else
        (case getAvailableEvents props (ranklistId props) of
           Inl e \<Rightarrow>
             notify [CallGetAvailableEvents (ranklistId props), ConsoleError e,
                     ToastError ''An unexpected error occurred while searching'']
               (st\<lparr>searchResults := [], isSearching := False\<rparr>)
         | Inr response \<Rightarrow>
             (case data response of
                Some events \<Rightarrow>
                  if success response
                  then notify [CallGetAvailableEvents (ranklistId props)]
                         (st\<lparr>searchResults := filter (event_matches query) events,
                             isSearching := False\<rparr>)
                  else notify [CallGetAvailableEvents (ranklistId props),
                               ToastError (or_else (error response) ''Failed to search events'')]
                         (st\<lparr>searchResults := [], isSearching := False\<rparr>)
              | None \<Rightarrow>
                  notify [CallGetAvailableEvents (ranklistId props),
                          ToastError (or_else (error response) ''Failed to search events'')]
                    (st\<lparr>searchResults := [], isSearching := False\<rparr>))))"

text \<open>The effect that runs when the debounced query has become \<open>q\<close>.\<close>

definition attach_debounced ::
  "'d attach_props \<Rightarrow> string \<Rightarrow> 'd attach_state \<Rightarrow> 'd attach_state" where
  "attach_debounced props q st =
     (if q \<noteq> [] \<and> length (trim q) \<ge> 2
      then attach_handleSearch props q (st\<lparr>debouncedSearch := q\<rparr>)
      else st\<lparr>debouncedSearch := q, searchResults := []\<rparr>)"

definition handleAttachEvent ::
  "'d attach_props \<Rightarrow> int \<Rightarrow> 'd attach_state \<Rightarrow> 'd attach_state" where
  "handleAttachEvent props eventId st =
     (let weight = or_else (eventWeights st eventId) ''1.0'';
          weightValue = parseFloat props weight
      in
        if isNaN weightValue \<or> js_less weightValue (Fin 0.0) \<or> js_less (Fin 1.0) weightValue
        then notify [ToastError ''Weight must be between 0.0 and 1.0''] st
        else
          (case attachEventToRanklist props (ranklistId props) eventId weightValue of
             Inl e \<Rightarrow>
               notify [CallAttachEventToRanklist (ranklistId props) eventId weightValue,
                       ConsoleError e, ToastError ''An unexpected error occurred'']
                 (st\<lparr>isAttaching := None\<rparr>)
           | Inr response \<Rightarrow>
               if success response then
                 (let st1 = notify [CallAttachEventToRanklist (ranklistId props) eventId weightValue,
                                    ToastSuccess ''Event attached successfully'']
                              (st\<lparr>searchResults :=
                                     filter (\<lambda>event. ev_id event \<noteq> eventId) (searchResults st),
                                   eventWeights := (eventWeights st)(eventId := None)\<rparr>);
                      st2 = (if length (searchResults st) = 1 \<and> length (trim (searchQuery st)) \<ge> 2
                             then attach_handleSearch props (searchQuery st) st1 else st1);
                      st3 = (if onSuccess props then notify [Callback None] st2 else st2)
                  in st3\<lparr>isAttaching := None\<rparr>)
               else
                 notify [CallAttachEventToRanklist (ranklistId props) eventId weightValue,
                         ToastError (or_else (error response) ''Failed to attach event'')]
                   (st\<lparr>isAttaching := None\<rparr>)))"

definition updateEventWeight :: "int \<Rightarrow> string \<Rightarrow> 'd attach_state \<Rightarrow> 'd attach_state" where
  "updateEventWeight eventId weight st = st\<lparr>eventWeights := (eventWeights st)(eventId \<mapsto> weight)\<rparr>"

text \<open>What the weight input of an event shows.\<close>

definition weight_shown :: "'d attach_state \<Rightarrow> int \<Rightarrow> string" where
  "weight_shown st eventId = or_else (eventWeights st eventId) ''1.0''"

subsection \<open>The user-search dialog\<close>

record user =
  user_id :: string
  user_name :: string
  user_email :: string
  user_image :: "string option"
  user_studentId :: "string option"

record 'd user_state = "(user, 'd) search_state" +
  open_dialog :: bool
  isAdding :: "string option"

record 'd user_props =
  buttonLabel :: string
  successMessage :: string
  searchUsers :: "string \<Rightarrow> thrown + user list action_result"
  addUser :: "string \<Rightarrow> thrown + 'd action_result"
  onUserAdded :: bool

definition user_handleSearch ::
  "'d user_props \<Rightarrow> string \<Rightarrow> 'd user_state \<Rightarrow> 'd user_state" where
  "user_handleSearch props query st =
     (if trim query = [] \<or> length query < 2 then st\<lparr>searchResults := []\<rparr>
      else
        (case searchUsers props query of
           Inl e \<Rightarrow>
             notify [CallSearchUsers query, ConsoleError e,
                     ToastError ''An unexpected error occurred while searching'']
               (st\<lparr>searchResults := [], isSearching := False\<rparr>)
         | Inr response \<Rightarrow>
             (case data response of
                Some users \<Rightarrow>
                  if success response
                  then notify [CallSearchUsers query]
                         (st\<lparr>searchResults := users, isSearching := False\<rparr>)
                  else notify [CallSearchUsers query,
                               ToastError (or_else (error response) ''Failed to search users'')]
                         (st\<lparr>searchResults := [], isSearching := False\<rparr>)
              | None \<Rightarrow>
                  notify [CallSearchUsers query,
                          ToastError (or_else (error response) ''Failed to search users'')]
                    (st\<lparr>searchResults := [], isSearching := False\<rparr>))))"

definition user_debounced ::
  "'d user_props \<Rightarrow> string \<Rightarrow> 'd user_state \<Rightarrow> 'd user_state" where
  "user_debounced props q st =
     (if q \<noteq> [] \<and> length (trim q) \<ge> 2
      then user_handleSearch props q (st\<lparr>debouncedSearch := q\<rparr>)
      else st\<lparr>debouncedSearch := q\<rparr>)"

definition handleAddUser ::
  "'d user_props \<Rightarrow> string \<Rightarrow> 'd user_state \<Rightarrow> 'd user_state" where
  "handleAddUser props userId st =
     (case addUser props userId of
        Inl e \<Rightarrow>
          notify [CallAddUser userId, ConsoleError e,
                  ToastError ''An unexpected error occurred'']
            (st\<lparr>isAdding := None\<rparr>)
      | Inr response \<Rightarrow>
          if success response then
            (let st1 = notify [CallAddUser userId, ToastSuccess (successMessage props)]
                         (st\<lparr>searchResults :=
                                filter (\<lambda>u. user_id u \<noteq> userId) (searchResults st)\<rparr>);
                 st2 = (if length (searchResults st) = 1
                        then user_handleSearch props (debouncedSearch st) st1 else st1);
                 st3 = (if onUserAdded props then notify [Callback (data response)] st2 else st2)
             in st3\<lparr>isAdding := None\<rparr>)
          else
            notify [CallAddUser userId,
                    ToastError (or_else (error response)
                                  (''Failed to '' @ toLowerCase (buttonLabel props)))]
              (st\<lparr>isAdding := None\<rparr>))"

section \<open>Notions of the specification\<close>

text \<open>
  A message reveals a capability when it contains the capability's name, as it is
  written or with its underscores read as spaces.
\<close>

definition capability_words :: "string \<Rightarrow> string" where
  "capability_words cap = map (\<lambda>c. if c = CHR ''_'' then CHR '' '' else c) cap"

definition names_capability :: "string \<Rightarrow> string \<Rightarrow> bool" where
  "names_capability cap msg = (includes_str msg cap \<or> includes_str msg (capability_words cap))"

text \<open>
  The search of the specification: a row is selected by a term when its title, its
  author or its content contains the term as a substring, letters compared without
  regard to case; without a term every row is selected. A term is plain when it has
  none of the three characters that mean something to \<open>ILIKE\<close>.
\<close>

definition contains_ci :: "string \<Rightarrow> string \<Rightarrow> bool" where
  "contains_ci s t = includes_str (toLowerCase s) (toLowerCase t)"

definition term_matches :: "string \<Rightarrow> blog_post \<Rightarrow> bool" where
  "term_matches t b = (contains_ci (title b) t \<or> contains_ci (author b) t \<or> contains_ci (content b) t)"

definition selected :: "string option \<Rightarrow> blog_post \<Rightarrow> bool" where
  "selected search b = (case search of None \<Rightarrow> True | Some t \<Rightarrow> term_matches t b)"

definition like_plain :: "string \<Rightarrow> bool" where
  "like_plain t = (\<forall>c\<in>set t. c \<noteq> CHR ''%'' \<and> c \<noteq> CHR ''_'' \<and> c \<noteq> CHR 0x5C)"

text \<open>
  The size limit of the specification, \<open>fileSize <= bound\<close>, on a number: no
  comparison holds of \<open>NaN\<close>.
\<close>

fun at_most :: "real jsnum \<Rightarrow> real \<Rightarrow> bool" where
  "at_most NaN bound = False"
| "at_most PosInf bound = False"
| "at_most NegInf bound = True"
| "at_most (Fin x) bound = (x \<le> bound)"

section \<open>Concrete inputs\<close>

definition quiet_env :: env where
  "quiet_env =
     \<lparr>hasPermission = (\<lambda>_. Inr True), parse = Inr, toDate = (\<lambda>_. 0),
      db_fault = (\<lambda>_. None), clock = 5000,
      uuid = Inr ''0f8fad5b'',
      getSignedUrl = (\<lambda>bucket key fileType fileSize expiresIn. Inr (''https://s3.test/'' @ key)),
      S3_BUCKET_NAME = Some ''bucket'', NEXT_PUBLIC_S3_DOMAIN = Some ''https://cdn.test''\<rparr>"

definition denied_env :: env where
  "denied_env = quiet_env\<lparr>hasPermission := (\<lambda>_. Inr False)\<rparr>"

definition duplicate_fault_env :: "nat \<Rightarrow> env" where
  "duplicate_fault_env n =
     quiet_env\<lparr>db_fault := (\<lambda>k. if k = n then Some (ErrorObj ''Duplicate entry 'hello' for key slug'')
                                else None)\<rparr>"

definition hello_form :: blog_form where
  "hello_form = \<lparr>title = ''Hello'', slug = ''hello'', author = ''ann'', content = ''text'',
     status = ''draft'', featuredImage = None, publishedAt = None, isFeatured = None\<rparr>"

definition hello_row :: blog_post where
  "hello_row = \<lparr>title = ''Hello'', slug = ''hello'', author = ''ann'', content = ''text'',
     status = ''draft'', featuredImage = None, publishedAt = None, isFeatured = False,
     post_id = 1, createdAt = 1000, updatedAt = 1000\<rparr>"

definition empty_world :: world where
  "empty_world = \<lparr>rows = [], serial = 1, trace = []\<rparr>"

definition hello_world :: world where
  "hello_world = \<lparr>rows = [hello_row], serial = 2, trace = []\<rparr>"

definition world_row :: blog_post where
  "world_row = \<lparr>title = ''World'', slug = ''world'', author = ''bob'', content = ''more'',
     status = ''published'', featuredImage = None, publishedAt = None, isFeatured = False,
     post_id = 2, createdAt = 2000, updatedAt = 2000\<rparr>"

definition two_world :: world where
  "two_world = \<lparr>rows = [hello_row, world_row], serial = 3, trace = []\<rparr>"

definition outage_env :: "nat \<Rightarrow> env" where
  "outage_env n =
     quiet_env\<lparr>db_fault := (\<lambda>k. if k = n then Some (ErrorObj ''connection lost'') else None)\<rparr>"

definition signer_fault_env :: env where
  "signer_fault_env =
     quiet_env\<lparr>getSignedUrl := (\<lambda>bucket key fileType fileSize expiresIn.
                    Inl (ErrorObj ''Duplicate entry in signer cache''))\<rparr>"

definition cs_event :: event where
  "cs_event = \<lparr>ev_id = 7, ev_title = ''CS Contest'', ev_description = None,
                ev_startingAt = 0, ev_type = ''contest''\<rparr>"

definition attach_props0 :: "string attach_props" where
  "attach_props0 =
     \<lparr>ranklistId = 3, onSuccess = True,
      getAvailableEvents =
        (\<lambda>_. Inr \<lparr>success = True, data = Some [], error = None, message = None\<rparr>),
      attachEventToRanklist =
        (\<lambda>r e w. Inr \<lparr>success = True, data = Some ''attached'', error = None, message = None\<rparr>),
      parseFloat = (\<lambda>s. if s = ''1.0'' then Fin 1 else if s = ''1.5'' then Fin (3 / 2) else NaN)\<rparr>"

definition attach_state0 :: "string attach_state" where
  "attach_state0 =
     \<lparr>searchQuery = ''cs'', debouncedSearch = ''cs'', isSearching = False,
      searchResults = [cs_event], notices = [],
      isOpen = True, isAttaching = None, eventWeights = Map.empty\<rparr>"

definition ann_user :: user where
  "ann_user = \<lparr>user_id = ''u1'', user_name = ''Ann'', user_email = ''ann@diu.edu.bd'',
                user_image = None, user_studentId = None\<rparr>"

definition user_props0 :: "string user_props" where
  "user_props0 =
     \<lparr>buttonLabel = ''Add'', successMessage = ''User added'',
      searchUsers = (\<lambda>q. Inr \<lparr>success = True, data = Some [], error = None, message = None\<rparr>),
      addUser = (\<lambda>u. Inr \<lparr>success = True, data = Some ''member'', error = None, message = None\<rparr>),
      onUserAdded = True\<rparr>"

definition user_state0 :: "string user_state" where
  "user_state0 =
     \<lparr>searchQuery = ''an'', debouncedSearch = ''an'', isSearching = False,
      searchResults = [ann_user], notices = [],
      open_dialog = True, isAdding = None\<rparr>"

text \<open>
  The message with which the store, a PostgreSQL database, reports the violation of a
  unique constraint, and an environment in which the insert of \<open>createBlog\<close> meets it,
  as it does when another creator has taken the slug between the lookup and the insert.
\<close>

definition unique_violation_message :: string where
  "unique_violation_message =
     ''duplicate key value violates unique constraint '' @ [CHR 0x22]
       @ ''blog_posts_slug_unique'' @ [CHR 0x22]"

definition unique_violation_env :: env where
  "unique_violation_env =
     quiet_env\<lparr>db_fault := (\<lambda>k. if k = 1 then Some (ErrorObj unique_violation_message)
                                else None)\<rparr>"

definition edited_form :: blog_form where
  "edited_form = hello_form\<lparr>content := ''new text''\<rparr>"

section \<open>Facts about the store's statements\<close>

lemmas step_defs = settle_def await_def validatePermission_def emit_def

lemmas store_defs = db_select_def db_insert_def db_update_def db_delete_def

lemma select_hit:
  assumes "db_fault env n = None" and "\<exists>b\<in>set (rows w). P b"
  shows "\<exists>b. db_select env n P w = (Inr [b], emit EvSelect w)"
proof -
  from assms(2) have "filter P (rows w) \<noteq> []"
    by (simp add: filter_empty_conv)
  then obtain b bs where "filter P (rows w) = b # bs"
    by (cases "filter P (rows w)") auto
  with assms(1) show ?thesis
    by (simp add: db_select_def)
qed


section \<open>The permission gate\<close>

lemma createBlog_asks_first:
  "\<exists>rest. trace (snd (createBlog env values w))
            = trace w @ EvHasPermission ''manage_blog_posts'' # rest"
  by (auto simp add: createBlog_def createBlog_try_def step_defs store_defs
      split: sum.splits option.splits if_splits)

lemma updateBlog_asks_first:
  "\<exists>rest. trace (snd (updateBlog env i values w))
            = trace w @ EvHasPermission ''manage_blog_posts'' # rest"
  by (auto simp add: updateBlog_def updateBlog_try_def step_defs store_defs
      split: sum.splits option.splits if_splits)

lemma deleteBlog_asks_first:
  "\<exists>rest. trace (snd (deleteBlog env i w))
            = trace w @ EvHasPermission ''manage_blog_posts'' # rest"
  by (auto simp add: deleteBlog_def deleteBlog_try_def step_defs store_defs
      split: sum.splits option.splits if_splits list.splits)

lemma generatePresignedUrl_asks_first:
  "\<exists>rest. trace (snd (generatePresignedUrl env fileType fileSize w))
            = trace w @ EvHasPermission ''manage_blog_posts'' # rest"
  by (auto simp add: generatePresignedUrl_def generatePresignedUrl_try_def step_defs
      split: sum.splits option.splits if_splits)

text \<open>
  C5. Each of \<open>createBlog\<close>, \<open>updateBlog\<close>, \<open>deleteBlog\<close> and
  \<open>generatePresignedUrl\<close> asks for the permission \<open>manage_blog_posts\<close> before it does
  anything else, on every call. When the answer is no, the action returns a failure
  with a permission error, and the only thing it has done is to ask: the rows and the
  serial of the store are as before, and the trace has gained no read, no write and
  no signing.
\<close>

theorem permission_denied_no_effect:
  "(\<exists>rest. trace (snd (createBlog env values w))
             = trace w @ EvHasPermission ''manage_blog_posts'' # rest)
   \<and> (\<exists>rest. trace (snd (updateBlog env i values w))
             = trace w @ EvHasPermission ''manage_blog_posts'' # rest)
   \<and> (\<exists>rest. trace (snd (deleteBlog env i w))
             = trace w @ EvHasPermission ''manage_blog_posts'' # rest)
   \<and> (\<exists>rest. trace (snd (generatePresignedUrl env fileType fileSize w))
             = trace w @ EvHasPermission ''manage_blog_posts'' # rest)
   \<and> (hasPermission env ''manage_blog_posts'' = Inr False \<longrightarrow>
        createBlog env values w =
          (failure permission_message,
           w\<lparr>trace := trace w @ [EvHasPermission ''manage_blog_posts'']\<rparr>)
      \<and> updateBlog env i values w =
          (failure permission_message,
           w\<lparr>trace := trace w @ [EvHasPermission ''manage_blog_posts'']\<rparr>)
      \<and> deleteBlog env i w =
          (failure permission_message,
           w\<lparr>trace := trace w @ [EvHasPermission ''manage_blog_posts'']\<rparr>)
      \<and> generatePresignedUrl env fileType fileSize w =
          (failure ''Unauthorized'',
           w\<lparr>trace := trace w @ [EvHasPermission ''manage_blog_posts'']\<rparr>))"
proof -
  have "hasPermission env ''manage_blog_posts'' = Inr False \<longrightarrow>
        createBlog env values w =
          (failure permission_message,
           w\<lparr>trace := trace w @ [EvHasPermission ''manage_blog_posts'']\<rparr>)
      \<and> updateBlog env i values w =
          (failure permission_message,
           w\<lparr>trace := trace w @ [EvHasPermission ''manage_blog_posts'']\<rparr>)
      \<and> deleteBlog env i w =
          (failure permission_message,
           w\<lparr>trace := trace w @ [EvHasPermission ''manage_blog_posts'']\<rparr>)
      \<and> generatePresignedUrl env fileType fileSize w =
          (failure ''Unauthorized'',
           w\<lparr>trace := trace w @ [EvHasPermission ''manage_blog_posts'']\<rparr>)"
    by (simp add: createBlog_def createBlog_try_def updateBlog_def updateBlog_try_def
        deleteBlog_def deleteBlog_try_def generatePresignedUrl_def
        generatePresignedUrl_try_def step_defs)
  with createBlog_asks_first updateBlog_asks_first deleteBlog_asks_first
    generatePresignedUrl_asks_first
  show ?thesis by blast
qed

theorem permission_denied_no_effect_witness:
  "hasPermission denied_env ''manage_blog_posts'' = Inr False
   \<and> createBlog denied_env hello_form hello_world =
       (failure permission_message,
        \<lparr>rows = [hello_row], serial = 2, trace = [EvHasPermission ''manage_blog_posts'']\<rparr>)
   \<and> updateBlog denied_env 1 hello_form hello_world =
       (failure permission_message,
        \<lparr>rows = [hello_row], serial = 2, trace = [EvHasPermission ''manage_blog_posts'']\<rparr>)
   \<and> deleteBlog denied_env 1 hello_world =
       (failure permission_message,
        \<lparr>rows = [hello_row], serial = 2, trace = [EvHasPermission ''manage_blog_posts'']\<rparr>)
   \<and> generatePresignedUrl denied_env ''image/png'' (Fin 10) hello_world =
       (failure ''Unauthorized'',
        \<lparr>rows = [hello_row], serial = 2, trace = [EvHasPermission ''manage_blog_posts'']\<rparr>)"
  using permission_denied_no_effect [of denied_env hello_form hello_world 1 "''image/png''" "Fin 10"]
  by (simp add: denied_env_def quiet_env_def hello_world_def)

section \<open>The wording of the permission error\<close>

lemma permission_message_names: "names_capability ''manage_blog_posts'' permission_message"
  by (simp add: permission_message_def names_capability_def capability_words_def)

lemma unauthorized_names_nothing: "\<not> names_capability ''manage_blog_posts'' ''Unauthorized''"
  by (simp add: names_capability_def capability_words_def)

text \<open>
  C6, as the claim states it, fails: without the permission \<open>createBlog\<close> answers
  with a message that spells the capability out.
\<close>

theorem permission_message_reveals_capability:
  "hasPermission denied_env ''manage_blog_posts'' = Inr False
   \<and> error (fst (createBlog denied_env hello_form empty_world))
       = Some ''You don't have permission to manage blog posts''
   \<and> names_capability ''manage_blog_posts'' ''You don't have permission to manage blog posts''"
  by (simp add: createBlog_def createBlog_try_def step_defs denied_env_def quiet_env_def
      failure_def permission_message_def names_capability_def capability_words_def)

text \<open>
  C6, amended. On a permission failure \<open>generatePresignedUrl\<close> returns the generic
  message \<open>Unauthorized\<close>, which does not name the capability; \<open>createBlog\<close>,
  \<open>updateBlog\<close>, \<open>deleteBlog\<close>, \<open>getBlog\<close> and \<open>getPaginatedBlogs\<close> return one fixed
  message, which names the capability in words.
\<close>

theorem permission_error_wording:
  assumes "hasPermission env ''manage_blog_posts'' = Inr False"
  shows "error (fst (generatePresignedUrl env fileType fileSize w)) = Some ''Unauthorized''
       \<and> \<not> names_capability ''manage_blog_posts'' ''Unauthorized''
       \<and> error (fst (createBlog env values w)) = Some permission_message
       \<and> error (fst (updateBlog env i values w)) = Some permission_message
       \<and> error (fst (deleteBlog env i w)) = Some permission_message
       \<and> error (fst (getBlog env i w)) = Some permission_message
       \<and> error (fst (getPaginatedBlogs env page pageSize search w)) = Some permission_message
       \<and> names_capability ''manage_blog_posts'' permission_message"
  using assms permission_message_names unauthorized_names_nothing
  by (simp add: createBlog_def createBlog_try_def updateBlog_def updateBlog_try_def
      deleteBlog_def deleteBlog_try_def generatePresignedUrl_def generatePresignedUrl_try_def
      getBlog_def getBlog_try_def getPaginatedBlogs_def getPaginatedBlogs_try_def
      step_defs failure_def)

theorem permission_error_wording_witness:
  "hasPermission denied_env ''manage_blog_posts'' = Inr False
   \<and> error (fst (generatePresignedUrl denied_env ''image/png'' (Fin 10) hello_world))
       = Some ''Unauthorized''
   \<and> error (fst (deleteBlog denied_env 1 hello_world))
       = Some ''You don't have permission to manage blog posts''"
  using permission_error_wording
          [of denied_env "''image/png''" "Fin 10" hello_world hello_form 1 1 10 None]
  by (simp add: denied_env_def quiet_env_def permission_message_def)

section \<open>createBlog and the duplicate entry\<close>

text \<open>
  C1, as the claim states it, fails twice. A caller without the permission whose
  payload collides with an existing row gets the permission error, not the
  duplicate-entry error. And when the store itself reports the violation of the unique
  constraint on the insert, its message does not contain \<open>Duplicate entry\<close>, the only
  wording that \<open>handleDbError\<close> looks for, so the caller gets the generic message.
\<close>

theorem createBlog_duplicate_behind_gate:
  "rows hello_world = [hello_row] \<and> slug hello_row = slug hello_form
   \<and> title hello_row = title hello_form
   \<and> fst (createBlog denied_env hello_form hello_world) = failure permission_message
   \<and> failure permission_message \<noteq> (failure duplicate_message :: blog_data action_result)
   \<and> rows empty_world = []
   \<and> db_fault unique_violation_env 1 = Some (ErrorObj unique_violation_message)
   \<and> \<not> includes_str unique_violation_message ''Duplicate entry''
   \<and> createBlog unique_violation_env hello_form empty_world =
        (failure generic_message,
         empty_world\<lparr>trace := [EvHasPermission ''manage_blog_posts'', EvSelect, EvInsert]\<rparr>)
   \<and> failure generic_message \<noteq> (failure duplicate_message :: blog_data action_result)"
  by (simp add: createBlog_def createBlog_try_def step_defs store_defs denied_env_def
      quiet_env_def unique_violation_env_def unique_violation_message_def
      hello_world_def hello_row_def hello_form_def empty_world_def failure_def
      permission_message_def duplicate_message_def generic_message_def)

text \<open>
  C1, amended. When the caller holds the permission, the payload passes validation and
  the lookup itself does not fail, then for every payload whose validated title or slug
  equals the title or slug of an existing row \<open>createBlog\<close> returns the
  duplicate-entry error from the lookup made before the insert: it performs no insert
  and leaves the store as it was.
\<close>

theorem createBlog_duplicate_entry:
  assumes perm: "hasPermission env ''manage_blog_posts'' = Inr True"
      and valid: "parse env values = Inr v"
      and lookup: "db_fault env 0 = None"
  shows "(\<exists>b\<in>set (rows w). title b = title v \<or> slug b = slug v) \<longrightarrow>
            createBlog env values w =
              (failure duplicate_message,
               w\<lparr>trace := trace w @ [EvHasPermission ''manage_blog_posts'', EvSelect]\<rparr>)"
proof
  let ?w1 = "emit (EvHasPermission ''manage_blog_posts'') w"
  assume "\<exists>b\<in>set (rows w). title b = title v \<or> slug b = slug v"
  then have "\<exists>b\<in>set (rows ?w1). title b = title v \<or> slug b = slug v"
    by (simp add: emit_def)
  from select_hit [OF lookup this] obtain b where
    "db_select env 0 (\<lambda>b. title b = title v \<or> slug b = slug v) ?w1 = (Inr [b], emit EvSelect ?w1)"
    by blast
  with perm valid show "createBlog env values w =
      (failure duplicate_message,
       w\<lparr>trace := trace w @ [EvHasPermission ''manage_blog_posts'', EvSelect]\<rparr>)"
    by (simp add: createBlog_def createBlog_try_def step_defs)
qed

theorem createBlog_duplicate_entry_witness:
  "hasPermission quiet_env ''manage_blog_posts'' = Inr True
   \<and> parse quiet_env hello_form = Inr hello_form \<and> db_fault quiet_env 0 = None
   \<and> hello_row \<in> set (rows hello_world) \<and> slug hello_row = slug hello_form
   \<and> createBlog quiet_env hello_form hello_world =
        (failure duplicate_message,
         hello_world\<lparr>trace := [EvHasPermission ''manage_blog_posts'', EvSelect]\<rparr>)
   \<and> world_row \<in> set (rows two_world) \<and> title world_row = title (hello_form\<lparr>title := ''World''\<rparr>)
   \<and> slug world_row \<noteq> slug (hello_form\<lparr>title := ''World''\<rparr>)
   \<and> createBlog quiet_env (hello_form\<lparr>title := ''World''\<rparr>) two_world =
        (failure duplicate_message,
         two_world\<lparr>trace := [EvHasPermission ''manage_blog_posts'', EvSelect]\<rparr>)"
  using createBlog_duplicate_entry [of quiet_env hello_form hello_form hello_world]
        createBlog_duplicate_entry [of quiet_env "hello_form\<lparr>title := ''World''\<rparr>"
          "hello_form\<lparr>title := ''World''\<rparr>" two_world]
  by (simp add: quiet_env_def hello_world_def two_world_def hello_row_def world_row_def
      hello_form_def)

section \<open>updateBlog\<close>

lemma set_values_fields:
  "title (set_values u b) = title u" "slug (set_values u b) = slug u"
  "author (set_values u b) = author u" "content (set_values u b) = content u"
  "status (set_values u b) = status u" "featuredImage (set_values u b) = featuredImage u"
  "publishedAt (set_values u b) = publishedAt u" "isFeatured (set_values u b) = isFeatured u"
  "post_id (set_values u b) = post_id b" "createdAt (set_values u b) = createdAt b"
  "updatedAt (set_values u b) = updatedAt b"
  by (simp_all add: set_values_def)




section \<open>The shared translator of unexpected errors\<close>

text \<open>
  C10. The \<open>catch\<close> clause of every blog action hands each caught value that is no
  validation error to \<open>handleDbError\<close> and returns its answer, the world being left as
  it was when the value was thrown. That answer is the duplicate-entry message for an
  \<open>Error\<close> whose message contains \<open>Duplicate entry\<close> and the generic message for every
  other such value. So \<open>deleteBlog\<close>, \<open>getBlog\<close>, \<open>getPaginatedBlogs\<close> (their first
  statement raising such an \<open>Error\<close>) and \<open>generatePresignedUrl\<close> (the signer raising
  it) return the duplicate-entry message, although none of them writes a title or a
  slug.
\<close>

theorem unexpected_errors_share_translator:
  "(hasPermission env ''manage_blog_posts'' = Inr True
      \<and> db_fault env 0 = Some (ErrorObj m) \<and> includes_str m ''Duplicate entry'' \<longrightarrow>
        fst (deleteBlog env i w) = failure duplicate_message
      \<and> fst (getBlog env i w) = failure duplicate_message
      \<and> fst (getPaginatedBlogs env page pageSize search w) = failure duplicate_message)
   \<and> (hasPermission env ''manage_blog_posts'' = Inr True
      \<and> startsWith fileType ''image/'' \<and> \<not> js_less (Fin MAX_FILE_SIZE) fileSize
      \<and> uuid env = Inr u
      \<and> getSignedUrl env (S3_BUCKET_NAME env) (storage_key u fileType) fileType fileSize 300
           = Inl (ErrorObj m)
      \<and> includes_str m ''Duplicate entry'' \<longrightarrow>
        fst (generatePresignedUrl env fileType fileSize w) = failure duplicate_message)
   \<and> ((\<forall>issues t. e \<noteq> ZodError issues t) \<longrightarrow>
        (createBlog_try env values w = (Inl e, w') \<longrightarrow>
           createBlog env values w = (handleDbError e, w'))
      \<and> (updateBlog_try env i values w = (Inl e, w') \<longrightarrow>
           updateBlog env i values w = (handleDbError e, w'))
      \<and> (deleteBlog_try env i w = (Inl e, w') \<longrightarrow>
           deleteBlog env i w = (handleDbError e, w'))
      \<and> (getBlog_try env i w = (Inl e, w') \<longrightarrow>
           getBlog env i w = (handleDbError e, w'))
      \<and> (getPaginatedBlogs_try env page pageSize search w = (Inl e, w') \<longrightarrow>
           getPaginatedBlogs env page pageSize search w = (handleDbError e, w'))
      \<and> (generatePresignedUrl_try env fileType fileSize w = (Inl e, w') \<longrightarrow>
           generatePresignedUrl env fileType fileSize w = (handleDbError e, w'))
      \<and> handleDbError e =
           (if \<exists>t. e = ErrorObj t \<and> includes_str t ''Duplicate entry''
            then failure duplicate_message else failure generic_message))"
proof (intro conjI impI)
  assume "hasPermission env ''manage_blog_posts'' = Inr True
      \<and> db_fault env 0 = Some (ErrorObj m) \<and> includes_str m ''Duplicate entry''"
  then show "fst (deleteBlog env i w) = failure duplicate_message"
    and "fst (getBlog env i w) = failure duplicate_message"
    and "fst (getPaginatedBlogs env page pageSize search w) = failure duplicate_message"
    by (simp_all add: deleteBlog_def deleteBlog_try_def getBlog_def getBlog_try_def
        getPaginatedBlogs_def getPaginatedBlogs_try_def step_defs db_select_def
        promise_all_def db_select_page_def db_count_def split: option.splits)
next
  assume "hasPermission env ''manage_blog_posts'' = Inr True
      \<and> startsWith fileType ''image/'' \<and> \<not> js_less (Fin MAX_FILE_SIZE) fileSize
      \<and> uuid env = Inr u
      \<and> getSignedUrl env (S3_BUCKET_NAME env) (storage_key u fileType) fileType fileSize 300
           = Inl (ErrorObj m)
      \<and> includes_str m ''Duplicate entry''"
  then show "fst (generatePresignedUrl env fileType fileSize w) = failure duplicate_message"
    by (simp add: generatePresignedUrl_def generatePresignedUrl_try_def step_defs)
next
  assume a: "\<forall>issues t. e \<noteq> ZodError issues t"
  then have c: "catch_form e = handleDbError e"
    by (cases e) simp_all
  from a show "handleDbError e =
           (if \<exists>t. e = ErrorObj t \<and> includes_str t ''Duplicate entry''
            then failure duplicate_message else failure generic_message)"
    by (cases e) simp_all
  { assume "createBlog_try env values w = (Inl e, w')"
    with c show "createBlog env values w = (handleDbError e, w')"
      by (simp add: createBlog_def settle_def) }
  { assume "updateBlog_try env i values w = (Inl e, w')"
    with c show "updateBlog env i values w = (handleDbError e, w')"
      by (simp add: updateBlog_def settle_def) }
  { assume "deleteBlog_try env i w = (Inl e, w')"
    then show "deleteBlog env i w = (handleDbError e, w')"
      by (simp add: deleteBlog_def settle_def) }
  { assume "getBlog_try env i w = (Inl e, w')"
    then show "getBlog env i w = (handleDbError e, w')"
      by (simp add: getBlog_def settle_def) }
  { assume "getPaginatedBlogs_try env page pageSize search w = (Inl e, w')"
    then show "getPaginatedBlogs env page pageSize search w = (handleDbError e, w')"
      by (simp add: getPaginatedBlogs_def settle_def) }
  { assume "generatePresignedUrl_try env fileType fileSize w = (Inl e, w')"
    then show "generatePresignedUrl env fileType fileSize w = (handleDbError e, w')"
      by (simp add: generatePresignedUrl_def settle_def) }
qed

theorem unexpected_errors_share_translator_witness:
  "hasPermission (duplicate_fault_env 0) ''manage_blog_posts'' = Inr True
   \<and> db_fault (duplicate_fault_env 0) 0 = Some (ErrorObj ''Duplicate entry 'hello' for key slug'')
   \<and> includes_str ''Duplicate entry 'hello' for key slug'' ''Duplicate entry''
   \<and> fst (deleteBlog (duplicate_fault_env 0) 1 hello_world) = failure duplicate_message
   \<and> fst (getBlog (duplicate_fault_env 0) 1 hello_world) = failure duplicate_message
   \<and> fst (getPaginatedBlogs (duplicate_fault_env 0) 1 10 None hello_world) = failure duplicate_message
   \<and> hasPermission signer_fault_env ''manage_blog_posts'' = Inr True
   \<and> startsWith ''image/png'' ''image/'' \<and> \<not> js_less (Fin MAX_FILE_SIZE) (Fin 10)
   \<and> uuid signer_fault_env = Inr ''0f8fad5b''
   \<and> getSignedUrl signer_fault_env (S3_BUCKET_NAME signer_fault_env)
        (storage_key ''0f8fad5b'' ''image/png'') ''image/png'' (Fin 10) 300
        = Inl (ErrorObj ''Duplicate entry in signer cache'')
   \<and> includes_str ''Duplicate entry in signer cache'' ''Duplicate entry''
   \<and> fst (generatePresignedUrl signer_fault_env ''image/png'' (Fin 10) hello_world)
        = failure duplicate_message
   \<and> createBlog_try (duplicate_fault_env 1) hello_form empty_world =
        (Inl (ErrorObj ''Duplicate entry 'hello' for key slug''),
         empty_world\<lparr>trace := [EvHasPermission ''manage_blog_posts'', EvSelect, EvInsert]\<rparr>)
   \<and> createBlog (duplicate_fault_env 1) hello_form empty_world =
        (failure duplicate_message,
         empty_world\<lparr>trace := [EvHasPermission ''manage_blog_posts'', EvSelect, EvInsert]\<rparr>)
   \<and> updateBlog_try (outage_env 2) 1 edited_form two_world =
        (Inl (ErrorObj ''connection lost''),
         two_world\<lparr>trace := [EvHasPermission ''manage_blog_posts'', EvSelect, EvSelect,
                               EvUpdate 1]\<rparr>)
   \<and> \<not> includes_str ''connection lost'' ''Duplicate entry''
   \<and> updateBlog (outage_env 2) 1 edited_form two_world =
        (failure generic_message,
         two_world\<lparr>trace := [EvHasPermission ''manage_blog_posts'', EvSelect, EvSelect,
                               EvUpdate 1]\<rparr>)"
proof -
  have t: "createBlog_try (duplicate_fault_env 1) hello_form empty_world =
        (Inl (ErrorObj ''Duplicate entry 'hello' for key slug''),
         empty_world\<lparr>trace := [EvHasPermission ''manage_blog_posts'', EvSelect, EvInsert]\<rparr>)"
    by (simp add: createBlog_try_def step_defs store_defs duplicate_fault_env_def quiet_env_def
        empty_world_def)
  have u: "updateBlog_try (outage_env 2) 1 edited_form two_world =
        (Inl (ErrorObj ''connection lost''),
         two_world\<lparr>trace := [EvHasPermission ''manage_blog_posts'', EvSelect, EvSelect,
                               EvUpdate 1]\<rparr>)"
    by (simp add: updateBlog_try_def step_defs store_defs outage_env_def quiet_env_def
        two_world_def hello_row_def world_row_def edited_form_def hello_form_def)
  have n: "\<not> includes_str ''connection lost'' ''Duplicate entry''"
    by simp
  from t u n
    unexpected_errors_share_translator
      [of "duplicate_fault_env 0" "''Duplicate entry 'hello' for key slug''" 1 hello_world
          1 10 None "''image/png''" "Fin 10" "''0f8fad5b''" NonError hello_form hello_world]
    unexpected_errors_share_translator
      [of signer_fault_env "''Duplicate entry in signer cache''" 1 hello_world
          1 10 None "''image/png''" "Fin 10" "''0f8fad5b''" NonError hello_form hello_world]
    unexpected_errors_share_translator
      [of "duplicate_fault_env 1" "''x''" 1 empty_world
          1 10 None "''image/png''" "Fin 10" "''0f8fad5b''"
          "ErrorObj ''Duplicate entry 'hello' for key slug''" hello_form
          "empty_world\<lparr>trace := [EvHasPermission ''manage_blog_posts'', EvSelect,
                                    EvInsert]\<rparr>"]
    unexpected_errors_share_translator
      [of "outage_env 2" "''x''" 1 two_world
          1 10 None "''image/png''" "Fin 10" "''0f8fad5b''"
          "ErrorObj ''connection lost''" edited_form
          "two_world\<lparr>trace := [EvHasPermission ''manage_blog_posts'', EvSelect,
                                  EvSelect, EvUpdate 1]\<rparr>"]
  show ?thesis
    by (simp add: duplicate_fault_env_def signer_fault_env_def quiet_env_def MAX_FILE_SIZE_def)
qed

section \<open>generatePresignedUrl\<close>

lemma split_on_first: "\<exists>ps. split_on sep s = takeWhile (\<lambda>c. c \<noteq> sep) s # ps"
  by (induction s) (auto split: list.splits)

lemma size_guard:
  "fileSize \<noteq> NaN \<Longrightarrow> js_less (Fin bound) fileSize \<longleftrightarrow> \<not> at_most fileSize bound"
  by (cases fileSize) auto

text \<open>
  C2, as the claim states it, fails twice. The public URL is not the configured domain
  followed directly by the key: there is a slash between them. And a size that is not
  a number is not at most 5242880, yet it passes the size check, which only asks
  whether the size is greater than the limit: an identifier is drawn and a URL signed.
\<close>

theorem public_url_and_size_check:
  "NEXT_PUBLIC_S3_DOMAIN quiet_env = Some ''https://cdn.test''
   \<and> storage_key ''0f8fad5b'' ''image/png'' = ''blog-images/0f8fad5b.png''
   \<and> data (fst (generatePresignedUrl quiet_env ''image/png'' (Fin 100) empty_world))
       = Some (Urls ''https://s3.test/blog-images/0f8fad5b.png''
                    ''https://cdn.test/blog-images/0f8fad5b.png'')
   \<and> ''https://cdn.test/blog-images/0f8fad5b.png'' \<noteq> ''https://cdn.test'' @ ''blog-images/0f8fad5b.png''
   \<and> \<not> at_most NaN 5242880
   \<and> generatePresignedUrl quiet_env ''image/png'' NaN empty_world =
       (\<lparr>success = True,
         data = Some (Urls ''https://s3.test/blog-images/0f8fad5b.png''
                           ''https://cdn.test/blog-images/0f8fad5b.png''),
         error = None, message = None\<rparr>,
        empty_world\<lparr>trace := [EvHasPermission ''manage_blog_posts'', EvUuid,
                                EvSign ''blog-images/0f8fad5b.png'' ''image/png'' NaN 300]\<rparr>)"
  by (simp add: generatePresignedUrl_def generatePresignedUrl_try_def step_defs quiet_env_def
      storage_key_def fileExtension_def MAX_FILE_SIZE_def empty_world_def)

text \<open>
  C2, amended. \<open>generatePresignedUrl\<close> checks the permission, then that the file type
  starts with \<open>image/\<close>, then, for a size that is a number, that it is at most 5242880
  bytes, and returns the error of the first check that fails, having drawn no
  identifier and signed nothing. When all three pass and neither the identifier
  generator nor the signer fails, it has the URL signed for 300 seconds for the key
  made of \<open>blog-images/\<close>, the fresh identifier, a dot and the part of the file type
  between its first slash and its second, if it has one; it returns that URL together
  with the public URL made of the configured domain, a slash and the key. Different
  identifiers give different keys.
\<close>

theorem generatePresignedUrl_contract:
  "(hasPermission env ''manage_blog_posts'' = Inr False \<longrightarrow>
      generatePresignedUrl env fileType fileSize w =
        (failure ''Unauthorized'',
         w\<lparr>trace := trace w @ [EvHasPermission ''manage_blog_posts'']\<rparr>))
   \<and> (hasPermission env ''manage_blog_posts'' = Inr True \<and> \<not> startsWith fileType ''image/'' \<longrightarrow>
      generatePresignedUrl env fileType fileSize w =
        (failure ''Only image files are allowed'',
         w\<lparr>trace := trace w @ [EvHasPermission ''manage_blog_posts'']\<rparr>))
   \<and> (hasPermission env ''manage_blog_posts'' = Inr True \<and> startsWith fileType ''image/''
       \<and> fileSize \<noteq> NaN \<and> \<not> at_most fileSize 5242880 \<longrightarrow>
      generatePresignedUrl env fileType fileSize w =
        (failure ''File size exceeds the 5MB limit'',
         w\<lparr>trace := trace w @ [EvHasPermission ''manage_blog_posts'']\<rparr>))
   \<and> (hasPermission env ''manage_blog_posts'' = Inr True \<and> startsWith fileType ''image/''
       \<and> at_most fileSize 5242880 \<and> uuid env = Inr u
       \<and> getSignedUrl env (S3_BUCKET_NAME env)
            (''blog-images/'' @ u @ ''.'' @ fileExtension fileType) fileType fileSize 300 = Inr url
       \<longrightarrow>
      generatePresignedUrl env fileType fileSize w =
        (\<lparr>success = True,
          data = Some (Urls url (template (NEXT_PUBLIC_S3_DOMAIN env) @ ''/''
                                  @ ''blog-images/'' @ u @ ''.'' @ fileExtension fileType)),
          error = None, message = None\<rparr>,
         w\<lparr>trace := trace w @
             [EvHasPermission ''manage_blog_posts'', EvUuid,
              EvSign (''blog-images/'' @ u @ ''.'' @ fileExtension fileType) fileType fileSize 300]\<rparr>))
   \<and> (''blog-images/'' @ u @ ''.'' @ fileExtension fileType
        = ''blog-images/'' @ u' @ ''.'' @ fileExtension fileType \<longrightarrow> u = u')
   \<and> fileExtension (''image/'' @ rest) = takeWhile (\<lambda>c. c \<noteq> CHR ''/'') rest"
proof -
  have big: "at_most fileSize 5242880 \<Longrightarrow> \<not> js_less (Fin 5242880) fileSize"
    by (cases fileSize) auto
  have small: "fileSize \<noteq> NaN \<Longrightarrow> \<not> at_most fileSize 5242880 \<Longrightarrow> js_less (Fin 5242880) fileSize"
    by (simp add: size_guard)
  have ext: "fileExtension (''image/'' @ rest) = takeWhile (\<lambda>c. c \<noteq> CHR ''/'') rest"
    using split_on_first [of "CHR ''/''" rest] by (auto simp add: fileExtension_def)
  from big small ext show ?thesis
    by (simp add: generatePresignedUrl_def generatePresignedUrl_try_def step_defs
        storage_key_def MAX_FILE_SIZE_def)
qed

theorem generatePresignedUrl_contract_witness:
  "hasPermission denied_env ''manage_blog_posts'' = Inr False
   \<and> generatePresignedUrl denied_env ''text/plain'' (Fin 6000000) empty_world =
       (failure ''Unauthorized'', empty_world\<lparr>trace := [EvHasPermission ''manage_blog_posts'']\<rparr>)
   \<and> hasPermission quiet_env ''manage_blog_posts'' = Inr True
   \<and> \<not> startsWith ''text/plain'' ''image/''
   \<and> generatePresignedUrl quiet_env ''text/plain'' (Fin 6000000) empty_world =
       (failure ''Only image files are allowed'',
        empty_world\<lparr>trace := [EvHasPermission ''manage_blog_posts'']\<rparr>)
   \<and> startsWith ''image/png'' ''image/''
   \<and> \<not> at_most (Fin 5242881) 5242880
   \<and> generatePresignedUrl quiet_env ''image/png'' (Fin 5242881) empty_world =
       (failure ''File size exceeds the 5MB limit'',
        empty_world\<lparr>trace := [EvHasPermission ''manage_blog_posts'']\<rparr>)
   \<and> \<not> at_most PosInf 5242880
   \<and> generatePresignedUrl quiet_env ''image/png'' PosInf empty_world =
       (failure ''File size exceeds the 5MB limit'',
        empty_world\<lparr>trace := [EvHasPermission ''manage_blog_posts'']\<rparr>)
   \<and> at_most (Fin 5242880) 5242880
   \<and> uuid quiet_env = Inr ''0f8fad5b''
   \<and> fileExtension ''image/png'' = ''png''
   \<and> generatePresignedUrl quiet_env ''image/png'' (Fin 5242880) empty_world =
       (\<lparr>success = True,
         data = Some (Urls ''https://s3.test/blog-images/0f8fad5b.png''
                           ''https://cdn.test/blog-images/0f8fad5b.png''),
         error = None, message = None\<rparr>,
        empty_world\<lparr>trace := [EvHasPermission ''manage_blog_posts'', EvUuid,
                                EvSign ''blog-images/0f8fad5b.png'' ''image/png''
                                  (Fin 5242880) 300]\<rparr>)"
  using generatePresignedUrl_contract
          [of denied_env "''text/plain''" "Fin 6000000" empty_world "''0f8fad5b''" "''u''" "''0f8fad5b''"]
        generatePresignedUrl_contract
          [of quiet_env "''text/plain''" "Fin 6000000" empty_world "''0f8fad5b''" "''u''" "''0f8fad5b''"]
        generatePresignedUrl_contract
          [of quiet_env "''image/png''" "Fin 5242881" empty_world "''0f8fad5b''" "''u''" "''0f8fad5b''"]
        generatePresignedUrl_contract
          [of quiet_env "''image/png''" PosInf empty_world "''0f8fad5b''" "''u''" "''0f8fad5b''"]
        generatePresignedUrl_contract
          [of quiet_env "''image/png''" "Fin 5242880" empty_world "''0f8fad5b''"
               "''https://s3.test/blog-images/0f8fad5b.png''" "''0f8fad5b''"]
  by (simp add: denied_env_def quiet_env_def fileExtension_def empty_world_def)

section \<open>getPaginatedBlogs\<close>

subsection \<open>Substrings and patterns\<close>

lemma startsWith_iff: "startsWith s t \<longleftrightarrow> (\<exists>v. s = t @ v)"
  by (induction s t rule: startsWith.induct) auto

lemma includes_str_iff: "includes_str s t \<longleftrightarrow> (\<exists>u v. s = u @ t @ v)"
proof (induction s)
  case Nil
  then show ?case by auto
next
  case (Cons c s)
  show ?case
  proof
    assume "includes_str (c # s) t"
    then consider "startsWith (c # s) t" | "includes_str s t" by auto
    then show "\<exists>u v. c # s = u @ t @ v"
    proof cases
      case 1
      then obtain v where "c # s = [] @ t @ v" by (auto simp: startsWith_iff)
      then show ?thesis by blast
    next
      case 2
      with Cons obtain u v where "s = u @ t @ v" by blast
      then have "c # s = (c # u) @ t @ v" by simp
      then show ?thesis by blast
    qed
  next
    assume "\<exists>u v. c # s = u @ t @ v"
    then obtain u v where e: "c # s = u @ t @ v" by blast
    show "includes_str (c # s) t"
    proof (cases u)
      case Nil
      with e have "startsWith (c # s) t" by (auto simp: startsWith_iff)
      then show ?thesis by simp
    next
      case (Cons d u')
      with e have "s = u' @ t @ v" by simp
      with Cons.IH have "includes_str s t" by blast
      then show ?thesis by simp
    qed
  qed
qed

lemma like_percent: "like_match (CHR ''%'' # ps) s \<longleftrightarrow> (\<exists>u v. s = u @ v \<and> like_match ps v)"
proof (induction s)
  case Nil
  then show ?case by simp
next
  case (Cons c s)
  show ?case
  proof
    assume "like_match (CHR ''%'' # ps) (c # s)"
    then consider "like_match ps (c # s)" | "like_match (CHR ''%'' # ps) s" by auto
    then show "\<exists>u v. c # s = u @ v \<and> like_match ps v"
    proof cases
      case 1
      then have "c # s = [] @ (c # s) \<and> like_match ps (c # s)" by simp
      then show ?thesis by blast
    next
      case 2
      with Cons obtain u v where "s = u @ v" "like_match ps v" by blast
      then have "c # s = (c # u) @ v \<and> like_match ps v" by simp
      then show ?thesis by blast
    qed
  next
    assume "\<exists>u v. c # s = u @ v \<and> like_match ps v"
    then obtain u v where e: "c # s = u @ v" "like_match ps v" by blast
    show "like_match (CHR ''%'' # ps) (c # s)"
    proof (cases u)
      case Nil
      with e show ?thesis by simp
    next
      case (Cons d u')
      with e have "s = u' @ v" by simp
      with e Cons.IH have "like_match (CHR ''%'' # ps) s" by blast
      then show ?thesis by simp
    qed
  qed
qed

lemma like_literal:
  "like_plain t \<Longrightarrow> like_match (t @ ps) s \<longleftrightarrow> (\<exists>r. s = t @ r \<and> like_match ps r)"
proof (induction t arbitrary: s)
  case Nil
  then show ?case by simp
next
  case (Cons c t)
  then have c: "c \<noteq> CHR ''%''" "c \<noteq> CHR ''_''" "c \<noteq> CHR 0x5C" and t: "like_plain t"
    by (simp_all add: like_plain_def)
  show ?case
  proof (cases s)
    case Nil
    with c show ?thesis by simp
  next
    case (Cons d s')
    with c Cons.IH [OF t, of s'] show ?thesis by auto
  qed
qed

lemma like_any: "like_match ''%'' s"
  by (induction s) simp_all

lemma like_substring:
  assumes "like_plain t"
  shows "like_match (''%'' @ t @ ''%'') s \<longleftrightarrow> includes_str s t"
proof -
  have "like_match (''%'' @ t @ ''%'') s \<longleftrightarrow> (\<exists>u v. s = u @ v \<and> like_match (t @ ''%'') v)"
    using like_percent [of "t @ ''%''" s] by simp
  also have "\<dots> \<longleftrightarrow> (\<exists>u v. s = u @ v \<and> (\<exists>r. v = t @ r))"
    using like_literal [OF assms, of "''%''"] like_any by simp
  also have "\<dots> \<longleftrightarrow> includes_str s t"
    by (auto simp: includes_str_iff)
  finally show ?thesis .
qed

lemma to_lower_plain:
  assumes "c \<noteq> CHR ''%''" "c \<noteq> CHR ''_''" "c \<noteq> CHR 0x5C"
  shows "to_lower c \<noteq> CHR ''%'' \<and> to_lower c \<noteq> CHR ''_'' \<and> to_lower c \<noteq> CHR 0x5C"
proof (cases "(65::nat) \<le> of_char c \<and> of_char c \<le> (90::nat)")
  case False
  then have "to_lower c = c"
    unfolding to_lower_def by (simp only: if_False)
  with assms show ?thesis by simp
next
  case True
  then have "of_char (to_lower c) = (of_char c + 32 :: nat)"
    by (simp add: to_lower_def)
  with True have "(97::nat) \<le> of_char (to_lower c)" by simp
  then show ?thesis by auto
qed

lemma like_plain_lower: "like_plain t \<Longrightarrow> like_plain (toLowerCase t)"
  using to_lower_plain by (auto simp: like_plain_def toLowerCase_def)

lemma ilike_contains:
  assumes "like_plain t"
  shows "ilike col (''%'' @ t @ ''%'') \<longleftrightarrow> contains_ci col t"
proof -
  have "toLowerCase (''%'' @ t @ ''%'') = ''%'' @ toLowerCase t @ ''%''"
    by (simp add: toLowerCase_def to_lower_def)
  with like_substring [OF like_plain_lower [OF assms]] show ?thesis
    by (simp add: ilike_def contains_ci_def)
qed


lemma includes_empty: "includes_str s []"
  by (cases s) simp_all

lemma lower_examples:
  "toLowerCase ''Hello'' = ''hello''" "toLowerCase ''World'' = ''world''"
  "toLowerCase ''ann'' = ''ann''" "toLowerCase ''bob'' = ''bob''"
  "toLowerCase ''text'' = ''text''" "toLowerCase ''more'' = ''more''"
  "toLowerCase ''h_l'' = ''h_l''" "toLowerCase ''OR'' = ''or''"
  "toLowerCase ''%h_l%'' = ''%h_l%''" "toLowerCase ''%OR%'' = ''%or%''"
  by code_simp+

lemma where_rows_selected:
  assumes "\<forall>t. search = Some t \<longrightarrow> like_plain t"
  shows "where_rows (searchCondition search) bs = filter (selected search) bs"
proof (cases search)
  case None
  then show ?thesis by (simp add: where_rows_def searchCondition_def selected_def)
next
  case (Some t)
  show ?thesis
  proof (cases "t = []")
    case True
    with Some show ?thesis
      by (simp add: where_rows_def searchCondition_def selected_def term_matches_def
          contains_ci_def toLowerCase_def includes_empty)
  next
    case False
    from Some assms have "like_plain t" by simp
    then have "\<And>col. ilike col (''%'' @ t @ ''%'') = contains_ci col t"
      by (rule ilike_contains)
    moreover have "selected search = term_matches t"
      using Some by (intro ext) (simp add: selected_def)
    ultimately show ?thesis
      using Some False
      by (simp add: where_rows_def searchCondition_def term_matches_def [abs_def])
  qed
qed

lemma newest_first: "sorted_wrt (\<lambda>a b. createdAt b \<le> createdAt a) (sort_key (\<lambda>b. - createdAt b) bs)"
proof -
  have "sorted (map (\<lambda>b. - createdAt b) (sort_key (\<lambda>b. - createdAt b) bs))"
    by (rule sorted_sort_key)
  then show ?thesis by (simp add: sorted_map)
qed

subsection \<open>The page\<close>

text \<open>
  C3, as the claim states it, fails. The term goes into the pattern as it is, so
  \<open>h_l\<close> selects the row titled \<open>Hello\<close>, which does not contain \<open>h_l\<close>; and for a
  page size of zero the number of pages is not a number of pages at all.
\<close>

theorem search_term_is_a_pattern:
  "title hello_row = ''Hello'' \<and> author hello_row = ''ann'' \<and> content hello_row = ''text''
   \<and> \<not> includes_str (toLowerCase ''Hello'') (toLowerCase ''h_l'')
   \<and> \<not> includes_str (toLowerCase ''ann'') (toLowerCase ''h_l'')
   \<and> \<not> includes_str (toLowerCase ''text'') (toLowerCase ''h_l'')
   \<and> data (fst (getPaginatedBlogs quiet_env 1 10 (Some ''h_l'') hello_world))
       = Some (Page [hello_row] 1 (Fin 1) 1 10)
   \<and> data (fst (getPaginatedBlogs quiet_env 1 0 None hello_world))
       = Some (Page [] 1 PosInf 1 0)"
  by (simp add: getPaginatedBlogs_def getPaginatedBlogs_try_def step_defs promise_all_def
        db_select_page_def db_count_def where_rows_def searchCondition_def quiet_env_def
        hello_world_def hello_row_def ilike_def lower_examples math_ceil_div_def)

text \<open>
  C3, amended. For a caller who holds the permission, a page of at least 1, a page size
  of at least 1 and reads that do not fail, \<open>getPaginatedBlogs\<close> returns the slice of
  at most \<open>pageSize\<close> items at offset \<open>(page - 1) * pageSize\<close> of the selected rows
  ordered by creation time descending, with \<open>totalCount\<close> the number of selected rows
  and \<open>totalPages\<close> the ceiling of \<open>totalCount / pageSize\<close>. Without a term, or with
  the empty one, every row is selected; for a plain term the selected rows are exactly
  those whose title, author or content contains it without regard to case.
\<close>

theorem getPaginatedBlogs_page:
  assumes perm: "hasPermission env ''manage_blog_posts'' = Inr True"
      and f0: "db_fault env 0 = None" and f1: "db_fault env 1 = None"
      and page: "1 \<le> page" and size: "1 \<le> pageSize"
      and plain: "\<forall>t. search = Some t \<longrightarrow> like_plain t"
  shows "\<exists>blogs total.
           getPaginatedBlogs env page pageSize search w =
             (\<lparr>success = True,
               data = Some (Page blogs page
                              (Fin \<lceil>real_of_int total / real_of_int pageSize\<rceil>) total pageSize),
               error = None, message = None\<rparr>,
              w\<lparr>trace := trace w @ [EvHasPermission ''manage_blog_posts'', EvSelect, EvCount]\<rparr>)
         \<and> total = int (length (filter (selected search) (rows w)))
         \<and> blogs = take (nat pageSize) (drop (nat ((page - 1) * pageSize))
                     (sort_key (\<lambda>b. - createdAt b) (filter (selected search) (rows w))))
         \<and> length blogs \<le> nat pageSize
         \<and> sorted_wrt (\<lambda>a b. createdAt b \<le> createdAt a) blogs
         \<and> set blogs \<subseteq> {b \<in> set (rows w). selected search b}"
proof -
  let ?all = "sort_key (\<lambda>b. - createdAt b) (filter (selected search) (rows w))"
  let ?blogs = "take (nat pageSize) (drop (nat ((page - 1) * pageSize)) ?all)"
  let ?total = "int (length (filter (selected search) (rows w)))"
  from page size have off: "\<not> (page - 1) * pageSize < 0"
    by (simp add: not_less)
  from size have ceil: "math_ceil_div ?total pageSize = Fin \<lceil>real_of_int ?total / real_of_int pageSize\<rceil>"
    using ceiling_divide_eq_div [where ?'a = real, of ?total pageSize]
    by (simp add: math_ceil_div_def)
  have run: "getPaginatedBlogs env page pageSize search w =
             (\<lparr>success = True,
               data = Some (Page ?blogs page
                              (Fin \<lceil>real_of_int ?total / real_of_int pageSize\<rceil>) ?total pageSize),
               error = None, message = None\<rparr>,
              w\<lparr>trace := trace w @ [EvHasPermission ''manage_blog_posts'', EvSelect, EvCount]\<rparr>)"
    using perm f0 f1 size off ceil
    by (simp add: getPaginatedBlogs_def getPaginatedBlogs_try_def step_defs promise_all_def
        db_select_page_def db_count_def where_rows_selected [OF plain])
  have len: "length ?blogs \<le> nat pageSize" by simp
  have "sorted_wrt (\<lambda>a b. createdAt b \<le> createdAt a) ?all" by (rule newest_first)
  then have srt: "sorted_wrt (\<lambda>a b. createdAt b \<le> createdAt a) ?blogs"
    by (intro sorted_wrt_take sorted_wrt_drop)
  have "set ?blogs \<subseteq> set ?all"
    by (meson set_take_subset set_drop_subset subset_trans)
  then have sub: "set ?blogs \<subseteq> {b \<in> set (rows w). selected search b}" by auto
  from run len srt sub show ?thesis by blast
qed

theorem getPaginatedBlogs_page_witness:
  "hasPermission quiet_env ''manage_blog_posts'' = Inr True
   \<and> db_fault quiet_env 0 = None \<and> db_fault quiet_env 1 = None
   \<and> like_plain ''OR''
   \<and> getPaginatedBlogs quiet_env 1 1 (Some ''OR'') two_world =
       (\<lparr>success = True, data = Some (Page [world_row] 1 (Fin 1) 1 1),
         error = None, message = None\<rparr>,
        two_world\<lparr>trace := [EvHasPermission ''manage_blog_posts'', EvSelect, EvCount]\<rparr>)
   \<and> getPaginatedBlogs quiet_env 2 1 None two_world =
       (\<lparr>success = True, data = Some (Page [hello_row] 2 (Fin 2) 2 1),
         error = None, message = None\<rparr>,
        two_world\<lparr>trace := [EvHasPermission ''manage_blog_posts'', EvSelect, EvCount]\<rparr>)"
  using getPaginatedBlogs_page [of quiet_env 1 1 "Some ''OR''" two_world] getPaginatedBlogs_page [of quiet_env 2 1 None two_world]
  by (simp add: quiet_env_def two_world_def hello_row_def world_row_def like_plain_def
      selected_def term_matches_def contains_ci_def lower_examples)

section \<open>The event-attach dialog: the weight\<close>

text \<open>
  The handlers of the dialogs are taken to run to their end with the answers of the
  server actions they await; what they did is read off the notices.
\<close>

lemma weight_guard_iff:
  "(isNaN v \<or> js_less v (Fin 0.0) \<or> js_less (Fin 1.0) v) \<longleftrightarrow> \<not> (\<exists>x. v = Fin x \<and> 0 \<le> x \<and> x \<le> 1)"
  by (cases v) auto

text \<open>
  C7. In the event-attach dialog the weight of an event that has no entry is \<open>1.0\<close>.
  Whenever the number parsed from the weight is not a finite number between 0 and 1,
  both included, \<open>handleAttachEvent\<close> shows the error notification and does nothing
  else: it does not call \<open>attachEventToRanklist\<close> and leaves the state as it was.
  When the number is in that interval the call is made.
\<close>

theorem attach_weight_guard:
  "(eventWeights st eventId = None \<longrightarrow> weight_shown st eventId = ''1.0'')
   \<and> (\<not> (\<exists>x. parseFloat props (weight_shown st eventId) = Fin x \<and> 0 \<le> x \<and> x \<le> 1) \<longrightarrow>
        handleAttachEvent props eventId st =
          st\<lparr>notices := notices st @ [ToastError ''Weight must be between 0.0 and 1.0'']\<rparr>)
   \<and> ((\<exists>x. parseFloat props (weight_shown st eventId) = Fin x \<and> 0 \<le> x \<and> x \<le> 1) \<longrightarrow>
        CallAttachEventToRanklist (ranklistId props) eventId
            (parseFloat props (weight_shown st eventId))
          \<in> set (notices (handleAttachEvent props eventId st)))"
proof (intro conjI impI)
  assume "eventWeights st eventId = None"
  then show "weight_shown st eventId = ''1.0''"
    by (simp add: weight_shown_def)
next
  let ?v = "parseFloat props (weight_shown st eventId)"
  assume "\<not> (\<exists>x. ?v = Fin x \<and> 0 \<le> x \<and> x \<le> 1)"
  then have "isNaN ?v \<or> js_less ?v (Fin 0.0) \<or> js_less (Fin 1.0) ?v"
    using weight_guard_iff [of ?v] by blast
  then show "handleAttachEvent props eventId st =
          st\<lparr>notices := notices st @ [ToastError ''Weight must be between 0.0 and 1.0'']\<rparr>"
    unfolding handleAttachEvent_def weight_shown_def Let_def notify_def by simp
next
  let ?v = "parseFloat props (weight_shown st eventId)"
  assume "\<exists>x. ?v = Fin x \<and> 0 \<le> x \<and> x \<le> 1"
  then have "\<not> (isNaN ?v \<or> js_less ?v (Fin 0.0) \<or> js_less (Fin 1.0) ?v)"
    using weight_guard_iff [of ?v] by blast
  then show "CallAttachEventToRanklist (ranklistId props) eventId ?v
          \<in> set (notices (handleAttachEvent props eventId st))"
    unfolding handleAttachEvent_def weight_shown_def Let_def notify_def attach_handleSearch_def
    by (simp split: sum.splits option.splits)
qed

theorem attach_weight_guard_witness:
  "eventWeights attach_state0 7 = None \<and> weight_shown attach_state0 7 = ''1.0''
   \<and> parseFloat attach_props0 (weight_shown attach_state0 7) = Fin 1
   \<and> CallAttachEventToRanklist 3 7 (Fin 1) \<in> set (notices (handleAttachEvent attach_props0 7 attach_state0))
   \<and> weight_shown (updateEventWeight 7 ''1.5'' attach_state0) 7 = ''1.5''
   \<and> parseFloat attach_props0 ''1.5'' = Fin (3 / 2)
   \<and> notices (handleAttachEvent attach_props0 7 (updateEventWeight 7 ''1.5'' attach_state0))
       = [ToastError ''Weight must be between 0.0 and 1.0'']
   \<and> weight_shown (updateEventWeight 7 ''abc'' attach_state0) 7 = ''abc''
   \<and> parseFloat attach_props0 ''abc'' = NaN
   \<and> notices (handleAttachEvent attach_props0 7 (updateEventWeight 7 ''abc'' attach_state0))
       = [ToastError ''Weight must be between 0.0 and 1.0'']"
  using attach_weight_guard [of attach_state0 7 attach_props0]
        attach_weight_guard [of "updateEventWeight 7 ''1.5'' attach_state0" 7 attach_props0]
        attach_weight_guard [of "updateEventWeight 7 ''abc'' attach_state0" 7 attach_props0]
  by (simp add: attach_state0_def attach_props0_def weight_shown_def updateEventWeight_def)

section \<open>The debounced search\<close>

lemma length_trim: "length (trim s) \<le> length s"
proof -
  have "length (trim s) \<le> length (dropWhile is_space s)"
    unfolding trim_def using length_dropWhile_le [of is_space "rev (dropWhile is_space s)"] by simp
  also have "\<dots> \<le> length s" by (rule length_dropWhile_le)
  finally show ?thesis .
qed

lemma search_guard_passes:
  assumes "2 \<le> length (trim q)"
  shows "\<not> (trim q = [] \<or> length q < 2)"
  using assms length_trim [of q] by auto

lemma attach_handleSearch_issues:
  assumes "2 \<le> length (trim q)"
  shows "CallGetAvailableEvents (ranklistId props) \<in> set (notices (attach_handleSearch props q st))"
  using search_guard_passes [OF assms]
  by (simp add: attach_handleSearch_def notify_def split: sum.splits option.splits)

lemma attach_debounced_long:
  assumes "2 \<le> length (trim q)"
  shows "CallGetAvailableEvents (ranklistId props) \<in> set (notices (attach_debounced props q st))"
proof -
  from assms have "q \<noteq> []" by (auto simp: trim_def)
  with assms attach_handleSearch_issues [OF assms] show ?thesis
    by (simp add: attach_debounced_def)
qed

lemma attach_debounced_short:
  assumes "length (trim q) < 2"
  shows "attach_debounced props q st = st\<lparr>debouncedSearch := q, searchResults := []\<rparr>"
  using assms by (simp add: attach_debounced_def)

lemma user_debounced_long:
  assumes "2 \<le> length (trim q)"
  shows "CallSearchUsers q \<in> set (notices (user_debounced props q st))"
proof -
  from assms have "q \<noteq> []" by (auto simp: trim_def)
  with assms search_guard_passes [OF assms] show ?thesis
    by (simp add: user_debounced_def user_handleSearch_def notify_def
        split: sum.splits option.splits)
qed

lemma user_debounced_short:
  assumes "length (trim q) < 2"
  shows "user_debounced props q st = st\<lparr>debouncedSearch := q\<rparr>"
  using assms by (simp add: user_debounced_def)

lemma trim_a: "trim ''a'' = ''a''"
  by (simp add: trim_def is_space_def)

text \<open>
  C8 holds for the event-attach dialog (\<open>attach_debounced_short\<close>,
  \<open>attach_debounced_long\<close>), and its first half for the user-search dialog. The
  user-search dialog misses the second half: when the debounced query becomes the
  one-letter \<open>a\<close> while a result is shown, it issues no search and keeps the result,
  where the event-attach dialog clears its list.
\<close>

theorem user_dialog_keeps_stale_results:
  "length (trim ''a'') < 2
   \<and> searchResults user_state0 = [ann_user]
   \<and> searchResults (user_debounced user_props0 ''a'' (onChange ''a'' user_state0)) = [ann_user]
   \<and> notices (user_debounced user_props0 ''a'' (onChange ''a'' user_state0)) = []
   \<and> searchResults attach_state0 = [cs_event]
   \<and> searchResults (attach_debounced attach_props0 ''a'' (onChange ''a'' attach_state0)) = []"
  by (simp add: trim_a user_debounced_def attach_debounced_def onChange_def user_state0_def
      attach_state0_def)

section \<open>A successful add or attach\<close>

lemma filter_key_remove1:
  "distinct (map f xs) \<Longrightarrow> x \<in> set xs \<Longrightarrow> filter (\<lambda>y. f y \<noteq> f x) xs = remove1 x xs"
proof (induction xs)
  case Nil
  then show ?case by simp
next
  case (Cons a xs)
  show ?case
  proof (cases "a = x")
    case True
    with Cons.prems have "f x \<notin> f ` set xs" by simp
    then have "\<forall>y\<in>set xs. f y \<noteq> f x" by (metis imageI)
    then have "filter (\<lambda>y. f y \<noteq> f x) xs = xs" by (simp add: filter_id_conv)
    with True show ?thesis by simp
  next
    case False
    with Cons.prems have "x \<in> set xs" and "f a \<noteq> f x" and "distinct (map f xs)" by auto
    with Cons.IH False show ?thesis by simp
  qed
qed

text \<open>
  C9, as the claim states it, fails: the event-attach dialog calls its success
  callback with no argument although the action returned data, and after the sole
  result has been attached it searches again only if the query still has two
  characters when trimmed.
\<close>

theorem attach_callback_gets_no_data:
  "attachEventToRanklist attach_props0 3 7 (Fin 1)
     = Inr \<lparr>success = True, data = Some ''attached'', error = None, message = None\<rparr>
   \<and> notices (handleAttachEvent attach_props0 7 attach_state0)
       = [CallAttachEventToRanklist 3 7 (Fin 1), ToastSuccess ''Event attached successfully'',
          CallGetAvailableEvents 3, Callback None]
   \<and> searchResults (attach_state0\<lparr>searchQuery := ''c''\<rparr>) = [cs_event]
   \<and> notices (handleAttachEvent attach_props0 7 (attach_state0\<lparr>searchQuery := ''c''\<rparr>))
       = [CallAttachEventToRanklist 3 7 (Fin 1), ToastSuccess ''Event attached successfully'',
          Callback None]"
  by (simp add: handleAttachEvent_def attach_handleSearch_def notify_def attach_props0_def
      attach_state0_def trim_def is_space_def)

lemma attach_handleSearch_no_callback:
  "Callback d \<in> set (notices (attach_handleSearch props q st)) \<longleftrightarrow> Callback d \<in> set (notices st)"
  by (simp add: attach_handleSearch_def notify_def split: sum.splits option.splits)

lemma attach_handleSearch_weights:
  "eventWeights (attach_handleSearch props q st) = eventWeights st"
  by (simp add: attach_handleSearch_def notify_def split: sum.splits option.splits)

lemma attach_success:
  assumes w: "parseFloat props (weight_shown st eventId) = Fin x" "0 \<le> x" "x \<le> 1"
      and r: "attachEventToRanklist props (ranklistId props) eventId (Fin x) = Inr response"
             "success response"
  shows "handleAttachEvent props eventId st =
     (let st1 = notify [CallAttachEventToRanklist (ranklistId props) eventId (Fin x),
                        ToastSuccess ''Event attached successfully'']
                  (st\<lparr>searchResults := filter (\<lambda>event. ev_id event \<noteq> eventId) (searchResults st),
                      eventWeights := (eventWeights st)(eventId := None)\<rparr>);
          st2 = (if length (searchResults st) = 1 \<and> length (trim (searchQuery st)) \<ge> 2
                 then attach_handleSearch props (searchQuery st) st1 else st1);
          st3 = (if onSuccess props then notify [Callback None] st2 else st2)
      in st3\<lparr>isAttaching := None\<rparr>)"
  using assms unfolding handleAttachEvent_def weight_shown_def Let_def by simp

lemma attach_success_effects:
  assumes w: "parseFloat props (weight_shown st eventId) = Fin x" "0 \<le> x" "x \<le> 1"
      and r: "attachEventToRanklist props (ranklistId props) eventId (Fin x) = Inr response"
             "success response"
  shows "eventWeights (handleAttachEvent props eventId st) = (eventWeights st)(eventId := None)"
    and "onSuccess props \<longrightarrow> Callback None \<in> set (notices (handleAttachEvent props eventId st))"
    and "Callback (Some d) \<in> set (notices (handleAttachEvent props eventId st))
           \<longrightarrow> Callback (Some d) \<in> set (notices st)"
    and "\<not> (length (searchResults st) = 1 \<and> 2 \<le> length (trim (searchQuery st))) \<longrightarrow>
           searchResults (handleAttachEvent props eventId st)
             = filter (\<lambda>e. ev_id e \<noteq> eventId) (searchResults st)
         \<and> notices (handleAttachEvent props eventId st)
             = notices st @ [CallAttachEventToRanklist (ranklistId props) eventId (Fin x),
                             ToastSuccess ''Event attached successfully'']
                 @ (if onSuccess props then [Callback None] else [])"
    and "length (searchResults st) = 1 \<and> 2 \<le> length (trim (searchQuery st)) \<longrightarrow>
           CallGetAvailableEvents (ranklistId props)
             \<in> set (notices (handleAttachEvent props eventId st))
         \<and> searchResults (handleAttachEvent props eventId st)
             = searchResults (attach_handleSearch props (searchQuery st) st)"
proof -
  note s = attach_success [OF assms]
  show "eventWeights (handleAttachEvent props eventId st) = (eventWeights st)(eventId := None)"
    by (simp add: s Let_def notify_def attach_handleSearch_weights)
  show "onSuccess props \<longrightarrow> Callback None \<in> set (notices (handleAttachEvent props eventId st))"
    by (simp add: s Let_def notify_def)
  show "Callback (Some d) \<in> set (notices (handleAttachEvent props eventId st))
           \<longrightarrow> Callback (Some d) \<in> set (notices st)"
    by (simp add: s Let_def notify_def attach_handleSearch_no_callback)
  show "\<not> (length (searchResults st) = 1 \<and> 2 \<le> length (trim (searchQuery st))) \<longrightarrow>
           searchResults (handleAttachEvent props eventId st)
             = filter (\<lambda>e. ev_id e \<noteq> eventId) (searchResults st)
         \<and> notices (handleAttachEvent props eventId st)
             = notices st @ [CallAttachEventToRanklist (ranklistId props) eventId (Fin x),
                             ToastSuccess ''Event attached successfully'']
                 @ (if onSuccess props then [Callback None] else [])"
    by (auto simp add: s Let_def notify_def)
  show "length (searchResults st) = 1 \<and> 2 \<le> length (trim (searchQuery st)) \<longrightarrow>
           CallGetAvailableEvents (ranklistId props)
             \<in> set (notices (handleAttachEvent props eventId st))
         \<and> searchResults (handleAttachEvent props eventId st)
             = searchResults (attach_handleSearch props (searchQuery st) st)"
  proof
    assume a: "length (searchResults st) = 1 \<and> 2 \<le> length (trim (searchQuery st))"
    then have g: "\<not> (trim (searchQuery st) = [] \<or> length (searchQuery st) < 2)"
      by (intro search_guard_passes) simp
    from a g show "CallGetAvailableEvents (ranklistId props)
             \<in> set (notices (handleAttachEvent props eventId st))
         \<and> searchResults (handleAttachEvent props eventId st)
             = searchResults (attach_handleSearch props (searchQuery st) st)"
      by (simp add: s Let_def notify_def attach_handleSearch_def split: sum.splits option.splits)
  qed
qed


lemma add_success:
  assumes "addUser props userId = Inr reply" "success reply"
  shows "handleAddUser props userId st =
     (let st1 = notify [CallAddUser userId, ToastSuccess (successMessage props)]
                  (st\<lparr>searchResults := filter (\<lambda>u. user_id u \<noteq> userId) (searchResults st)\<rparr>);
          st2 = (if length (searchResults st) = 1
                 then user_handleSearch props (debouncedSearch st) st1 else st1);
          st3 = (if onUserAdded props then notify [Callback (data reply)] st2 else st2)
      in st3\<lparr>isAdding := None\<rparr>)"
  using assms unfolding handleAddUser_def Let_def by simp

lemma add_success_effects:
  assumes "addUser props userId = Inr reply" "success reply"
  shows "onUserAdded props \<longrightarrow> Callback (data reply) \<in> set (notices (handleAddUser props userId st))"
    and "length (searchResults st) \<noteq> 1 \<longrightarrow>
           searchResults (handleAddUser props userId st)
             = filter (\<lambda>u. user_id u \<noteq> userId) (searchResults st)
         \<and> notices (handleAddUser props userId st)
             = notices st @ [CallAddUser userId, ToastSuccess (successMessage props)]
                 @ (if onUserAdded props then [Callback (data reply)] else [])"
    and "length (searchResults st) = 1 \<longrightarrow>
           searchResults (handleAddUser props userId st)
             = searchResults (user_handleSearch props (debouncedSearch st) st)"
    and "length (searchResults st) = 1 \<and> trim (debouncedSearch st) \<noteq> []
           \<and> 2 \<le> length (debouncedSearch st) \<longrightarrow>
           CallSearchUsers (debouncedSearch st) \<in> set (notices (handleAddUser props userId st))"
    and "length (searchResults st) = 1
           \<and> (trim (debouncedSearch st) = [] \<or> length (debouncedSearch st) < 2) \<longrightarrow>
           searchResults (handleAddUser props userId st) = []
         \<and> notices (handleAddUser props userId st)
             = notices st @ [CallAddUser userId, ToastSuccess (successMessage props)]
                 @ (if onUserAdded props then [Callback (data reply)] else [])"
proof -
  note s = add_success [OF assms]
  show "onUserAdded props \<longrightarrow> Callback (data reply) \<in> set (notices (handleAddUser props userId st))"
    by (simp add: s Let_def notify_def)
  show "length (searchResults st) \<noteq> 1 \<longrightarrow>
           searchResults (handleAddUser props userId st)
             = filter (\<lambda>u. user_id u \<noteq> userId) (searchResults st)
         \<and> notices (handleAddUser props userId st)
             = notices st @ [CallAddUser userId, ToastSuccess (successMessage props)]
                 @ (if onUserAdded props then [Callback (data reply)] else [])"
    by (simp add: s Let_def notify_def)
  show "length (searchResults st) = 1 \<longrightarrow>
           searchResults (handleAddUser props userId st)
             = searchResults (user_handleSearch props (debouncedSearch st) st)"
    by (simp add: s Let_def notify_def user_handleSearch_def split: sum.splits option.splits)
  show "length (searchResults st) = 1 \<and> trim (debouncedSearch st) \<noteq> []
           \<and> 2 \<le> length (debouncedSearch st) \<longrightarrow>
           CallSearchUsers (debouncedSearch st) \<in> set (notices (handleAddUser props userId st))"
    by (simp add: s Let_def notify_def user_handleSearch_def split: sum.splits option.splits)
  show "length (searchResults st) = 1
           \<and> (trim (debouncedSearch st) = [] \<or> length (debouncedSearch st) < 2) \<longrightarrow>
           searchResults (handleAddUser props userId st) = []
         \<and> notices (handleAddUser props userId st)
             = notices st @ [CallAddUser userId, ToastSuccess (successMessage props)]
                 @ (if onUserAdded props then [Callback (data reply)] else [])"
    by (auto simp add: s Let_def notify_def user_handleSearch_def)
qed

text \<open>
  C9, amended. After a successful attach the event-attach dialog clears the weight
  entry of the event and calls the success callback, if there is one, with no
  argument; it removes the events with that identity from the result list, unless the
  list had a single entry and the trimmed query has at least two characters, in which
  case it searches again and shows what the search yields. After a successful add the
  user-search dialog calls its callback, if there is one, with the data the action
  returned; it removes the users with that identity from the list, unless the list had
  a single entry, in which case it runs its search on the debounced query: a search is
  issued when that query is not blank and has at least two characters, and otherwise
  the list is just emptied. Where the identities in the list are distinct, removing the
  entries with the identity of an item removes exactly that item.
\<close>

theorem successful_add_or_attach:
  "(parseFloat props (weight_shown st eventId) = Fin x \<and> 0 \<le> x \<and> x \<le> 1
      \<and> attachEventToRanklist props (ranklistId props) eventId (Fin x) = Inr response
      \<and> success response \<longrightarrow>
        eventWeights (handleAttachEvent props eventId st) = (eventWeights st)(eventId := None)
      \<and> (onSuccess props \<longrightarrow> Callback None \<in> set (notices (handleAttachEvent props eventId st)))
      \<and> (Callback (Some d) \<in> set (notices (handleAttachEvent props eventId st))
           \<longrightarrow> Callback (Some d) \<in> set (notices st))
      \<and> (\<not> (length (searchResults st) = 1 \<and> 2 \<le> length (trim (searchQuery st))) \<longrightarrow>
           searchResults (handleAttachEvent props eventId st)
             = filter (\<lambda>e. ev_id e \<noteq> eventId) (searchResults st)
         \<and> notices (handleAttachEvent props eventId st)
             = notices st @ [CallAttachEventToRanklist (ranklistId props) eventId (Fin x),
                             ToastSuccess ''Event attached successfully'']
                 @ (if onSuccess props then [Callback None] else []))
      \<and> (length (searchResults st) = 1 \<and> 2 \<le> length (trim (searchQuery st)) \<longrightarrow>
           CallGetAvailableEvents (ranklistId props)
             \<in> set (notices (handleAttachEvent props eventId st))
         \<and> searchResults (handleAttachEvent props eventId st)
             = searchResults (attach_handleSearch props (searchQuery st) st)))
   \<and> (addUser uprops userId = Inr reply \<and> success reply \<longrightarrow>
        (onUserAdded uprops \<longrightarrow>
           Callback (data reply) \<in> set (notices (handleAddUser uprops userId ust)))
      \<and> (length (searchResults ust) \<noteq> 1 \<longrightarrow>
           searchResults (handleAddUser uprops userId ust)
             = filter (\<lambda>u. user_id u \<noteq> userId) (searchResults ust)
         \<and> notices (handleAddUser uprops userId ust)
             = notices ust @ [CallAddUser userId, ToastSuccess (successMessage uprops)]
                 @ (if onUserAdded uprops then [Callback (data reply)] else []))
      \<and> (length (searchResults ust) = 1 \<longrightarrow>
           searchResults (handleAddUser uprops userId ust)
             = searchResults (user_handleSearch uprops (debouncedSearch ust) ust))
      \<and> (length (searchResults ust) = 1 \<and> trim (debouncedSearch ust) \<noteq> []
           \<and> 2 \<le> length (debouncedSearch ust) \<longrightarrow>
           CallSearchUsers (debouncedSearch ust)
             \<in> set (notices (handleAddUser uprops userId ust)))
      \<and> (length (searchResults ust) = 1
           \<and> (trim (debouncedSearch ust) = [] \<or> length (debouncedSearch ust) < 2) \<longrightarrow>
           searchResults (handleAddUser uprops userId ust) = []
         \<and> notices (handleAddUser uprops userId ust)
             = notices ust @ [CallAddUser userId, ToastSuccess (successMessage uprops)]
                 @ (if onUserAdded uprops then [Callback (data reply)] else [])))
   \<and> (distinct (map ev_id (searchResults st)) \<and> e \<in> set (searchResults st) \<longrightarrow>
        filter (\<lambda>y. ev_id y \<noteq> ev_id e) (searchResults st) = remove1 e (searchResults st))
   \<and> (distinct (map user_id (searchResults ust)) \<and> u \<in> set (searchResults ust) \<longrightarrow>
        filter (\<lambda>y. user_id y \<noteq> user_id u) (searchResults ust) = remove1 u (searchResults ust))"
proof (intro conjI)
  show "parseFloat props (weight_shown st eventId) = Fin x \<and> 0 \<le> x \<and> x \<le> 1
      \<and> attachEventToRanklist props (ranklistId props) eventId (Fin x) = Inr response
      \<and> success response \<longrightarrow>
        eventWeights (handleAttachEvent props eventId st) = (eventWeights st)(eventId := None)
      \<and> (onSuccess props \<longrightarrow> Callback None \<in> set (notices (handleAttachEvent props eventId st)))
      \<and> (Callback (Some d) \<in> set (notices (handleAttachEvent props eventId st))
           \<longrightarrow> Callback (Some d) \<in> set (notices st))
      \<and> (\<not> (length (searchResults st) = 1 \<and> 2 \<le> length (trim (searchQuery st))) \<longrightarrow>
           searchResults (handleAttachEvent props eventId st)
             = filter (\<lambda>e. ev_id e \<noteq> eventId) (searchResults st)
         \<and> notices (handleAttachEvent props eventId st)
             = notices st @ [CallAttachEventToRanklist (ranklistId props) eventId (Fin x),
                             ToastSuccess ''Event attached successfully'']
                 @ (if onSuccess props then [Callback None] else []))
      \<and> (length (searchResults st) = 1 \<and> 2 \<le> length (trim (searchQuery st)) \<longrightarrow>
           CallGetAvailableEvents (ranklistId props)
             \<in> set (notices (handleAttachEvent props eventId st))
         \<and> searchResults (handleAttachEvent props eventId st)
             = searchResults (attach_handleSearch props (searchQuery st) st))"
    (is "?A \<longrightarrow> ?B")
  proof
    assume ?A
    then have h: "parseFloat props (weight_shown st eventId) = Fin x" "0 \<le> x" "x \<le> 1"
      "attachEventToRanklist props (ranklistId props) eventId (Fin x) = Inr response"
      "success response"
      by simp_all
    from attach_success_effects [OF h] show ?B by blast
  qed
  show "addUser uprops userId = Inr reply \<and> success reply \<longrightarrow>
        (onUserAdded uprops \<longrightarrow>
           Callback (data reply) \<in> set (notices (handleAddUser uprops userId ust)))
      \<and> (length (searchResults ust) \<noteq> 1 \<longrightarrow>
           searchResults (handleAddUser uprops userId ust)
             = filter (\<lambda>u. user_id u \<noteq> userId) (searchResults ust)
         \<and> notices (handleAddUser uprops userId ust)
             = notices ust @ [CallAddUser userId, ToastSuccess (successMessage uprops)]
                 @ (if onUserAdded uprops then [Callback (data reply)] else []))
      \<and> (length (searchResults ust) = 1 \<longrightarrow>
           searchResults (handleAddUser uprops userId ust)
             = searchResults (user_handleSearch uprops (debouncedSearch ust) ust))
      \<and> (length (searchResults ust) = 1 \<and> trim (debouncedSearch ust) \<noteq> []
           \<and> 2 \<le> length (debouncedSearch ust) \<longrightarrow>
           CallSearchUsers (debouncedSearch ust)
             \<in> set (notices (handleAddUser uprops userId ust)))
      \<and> (length (searchResults ust) = 1
           \<and> (trim (debouncedSearch ust) = [] \<or> length (debouncedSearch ust) < 2) \<longrightarrow>
           searchResults (handleAddUser uprops userId ust) = []
         \<and> notices (handleAddUser uprops userId ust)
             = notices ust @ [CallAddUser userId, ToastSuccess (successMessage uprops)]
                 @ (if onUserAdded uprops then [Callback (data reply)] else []))"
    (is "?A \<longrightarrow> ?B")
  proof
    assume ?A
    then have h: "addUser uprops userId = Inr reply" "success reply"
      by simp_all
    from add_success_effects [OF h] show ?B by blast
  qed
  show "distinct (map ev_id (searchResults st)) \<and> e \<in> set (searchResults st) \<longrightarrow>
        filter (\<lambda>y. ev_id y \<noteq> ev_id e) (searchResults st) = remove1 e (searchResults st)"
    using filter_key_remove1 [of ev_id "searchResults st" e] by blast
  show "distinct (map user_id (searchResults ust)) \<and> u \<in> set (searchResults ust) \<longrightarrow>
        filter (\<lambda>y. user_id y \<noteq> user_id u) (searchResults ust) = remove1 u (searchResults ust)"
    using filter_key_remove1 [of user_id "searchResults ust" u] by blast
qed

theorem successful_add_or_attach_witness:
  "parseFloat attach_props0 (weight_shown attach_state0 7) = Fin 1
   \<and> attachEventToRanklist attach_props0 (ranklistId attach_props0) 7 (Fin 1)
       = Inr \<lparr>success = True, data = Some ''attached'', error = None, message = None\<rparr>
   \<and> length (searchResults attach_state0) = 1 \<and> 2 \<le> length (trim (searchQuery attach_state0))
   \<and> eventWeights (handleAttachEvent attach_props0 7 attach_state0) 7 = None
   \<and> Callback None \<in> set (notices (handleAttachEvent attach_props0 7 attach_state0))
   \<and> CallGetAvailableEvents 3 \<in> set (notices (handleAttachEvent attach_props0 7 attach_state0))
   \<and> searchResults (handleAttachEvent attach_props0 7 attach_state0) = []
   \<and> searchResults (handleAttachEvent attach_props0 7 (attach_state0\<lparr>searchQuery := ''c''\<rparr>)) = []
   \<and> addUser user_props0 ''u1''
       = Inr \<lparr>success = True, data = Some ''member'', error = None, message = None\<rparr>
   \<and> length (searchResults user_state0) = 1 \<and> trim (debouncedSearch user_state0) \<noteq> []
   \<and> 2 \<le> length (debouncedSearch user_state0)
   \<and> Callback (Some ''member'') \<in> set (notices (handleAddUser user_props0 ''u1'' user_state0))
   \<and> CallSearchUsers ''an'' \<in> set (notices (handleAddUser user_props0 ''u1'' user_state0))
   \<and> searchResults (handleAddUser user_props0 ''u1'' (user_state0\<lparr>debouncedSearch := ''a''\<rparr>)) = []
   \<and> searchResults (handleAddUser user_props0 ''u1''
         (user_state0\<lparr>searchResults := [ann_user, ann_user\<lparr>user_id := ''u2''\<rparr>]\<rparr>))
       = [ann_user\<lparr>user_id := ''u2''\<rparr>]
   \<and> distinct (map ev_id (searchResults attach_state0)) \<and> cs_event \<in> set (searchResults attach_state0)
   \<and> filter (\<lambda>y. ev_id y \<noteq> ev_id cs_event) (searchResults attach_state0)
       = remove1 cs_event (searchResults attach_state0)"
  using successful_add_or_attach [where props = attach_props0 and st = attach_state0 and eventId = 7 and x = 1
               and response = "\<lparr>success = True, data = Some ''attached'', error = None, message = None\<rparr>"
               and d = "''attached''" and uprops = user_props0 and userId = "''u1''"
               and reply = "\<lparr>success = True, data = Some ''member'', error = None, message = None\<rparr>"
               and ust = user_state0 and e = cs_event and u = ann_user]
        successful_add_or_attach [where props = attach_props0 and st = "attach_state0\<lparr>searchQuery := ''c''\<rparr>"
               and eventId = 7 and x = 1
               and response = "\<lparr>success = True, data = Some ''attached'', error = None, message = None\<rparr>"
               and d = "''attached''" and uprops = user_props0 and userId = "''u1''"
               and reply = "\<lparr>success = True, data = Some ''member'', error = None, message = None\<rparr>"
               and ust = "user_state0\<lparr>debouncedSearch := ''a''\<rparr>" and e = cs_event and u = ann_user]
        successful_add_or_attach [where props = attach_props0 and st = attach_state0 and eventId = 7 and x = 1
               and response = "\<lparr>success = True, data = Some ''attached'', error = None, message = None\<rparr>"
               and d = "''attached''" and uprops = user_props0 and userId = "''u1''"
               and reply = "\<lparr>success = True, data = Some ''member'', error = None, message = None\<rparr>"
               and ust = "user_state0\<lparr>searchResults := [ann_user, ann_user\<lparr>user_id := ''u2''\<rparr>]\<rparr>"
               and e = cs_event and u = ann_user]
  by (simp add: attach_props0_def attach_state0_def user_props0_def user_state0_def
      weight_shown_def cs_event_def ann_user_def trim_def is_space_def
      attach_handleSearch_def user_handleSearch_def notify_def)

end
